theory Spec2Isabelle
  imports Main "HOL-Library.Word"
begin

unbundle bit_operations_syntax

section \<open>dnscrypt-proxy: listeners, admission counter and the per-query pipeline\<close>

text \<open>
  A shallow embedding of \<^verbatim>\<open>dnscrypt-proxy/proxy.go\<close> (the second file of
  \<^verbatim>\<open>src/dnscrypt-proxy/main.go\<close>): the admission counter
  (\<^verbatim>\<open>clientsCountInc\<close>, \<^verbatim>\<open>clientsCountDec\<close>), the listener loops
  (\<^verbatim>\<open>udpListener\<close>, \<^verbatim>\<open>tcpListener\<close>), the key generation of
  \<^verbatim>\<open>StartProxy\<close> and the query pipeline \<^verbatim>\<open>processIncomingQuery\<close>.
\<close>

subsection \<open>Basic types\<close>

type_synonym uint32 = "32 word"
type_synonym byte = "8 word"
type_synonym bytes = "byte list"

text \<open>A Go \<^verbatim>\<open>error\<close> value that is not \<^verbatim>\<open>nil\<close>.\<close>

datatype error = Error string

subsection \<open>The admission counter\<close>

text \<open>
  The fields of \<^verbatim>\<open>Proxy\<close> that the modelled functions read or write. The other
  fields of the struct are configuration that these functions never touch.
\<close>

record Proxy =
  proxyPublicKey :: bytes
  proxySecretKey :: bytes
  mainProto :: string
  clientsCount :: uint32
  maxClients :: uint32

text \<open>
  \<^verbatim>\<open>atomic.CompareAndSwapUint32(addr, old, new)\<close> on a location holding \<open>cur\<close>:
  the result flag and the value the location holds afterwards.
\<close>

definition CompareAndSwapUint32 :: "uint32 \<Rightarrow> uint32 \<Rightarrow> uint32 \<Rightarrow> bool \<times> uint32" where
  "CompareAndSwapUint32 cur old new = (if cur = old then (True, new) else (False, cur))"

text \<open>
  \<^verbatim>\<open>clientsCountInc\<close> and \<^verbatim>\<open>clientsCountDec\<close> run by one goroutine with no other
  goroutine writing the counter between the read and the compare-and-swap. The
  loops are kept as loops: \<open>None\<close> would be a call that never returns.
\<close>

partial_function (option) clientsCountInc :: "Proxy \<Rightarrow> (bool \<times> Proxy) option" where
  "clientsCountInc proxy =
     (let count = clientsCount proxy in
      if count \<ge> maxClients proxy then Some (False, proxy)
      else (case CompareAndSwapUint32 (clientsCount proxy) count (count + 1) of
              (swapped, v) \<Rightarrow>
                if swapped then Some (True, proxy\<lparr>clientsCount := v\<rparr>)
                else clientsCountInc (proxy\<lparr>clientsCount := v\<rparr>)))"

partial_function (option) clientsCountDec :: "Proxy \<Rightarrow> Proxy option" where
  "clientsCountDec proxy =
     (let count = clientsCount proxy in
      if count = 0 then Some proxy
      else (case CompareAndSwapUint32 (clientsCount proxy) count (count - 1) of
              (swapped, v) \<Rightarrow>
                if swapped then Some (proxy\<lparr>clientsCount := v\<rparr>)
                else clientsCountDec (proxy\<lparr>clientsCount := v\<rparr>)))"

subsection \<open>The concurrent tasks of the listeners\<close>

text \<open>
  Each datagram read by \<^verbatim>\<open>udpListener\<close> and each connection accepted by
  \<^verbatim>\<open>tcpListener\<close> runs in a goroutine of its own:
  \<^verbatim>\<open>if !proxy.clientsCountInc() { ...; return }; defer proxy.clientsCountDec(); <body>\<close>.
  The goroutines share \<^verbatim>\<open>proxy.clientsCount\<close>, so a task is a small program whose
  steps are the shared-memory accesses of \<^verbatim>\<open>clientsCountInc\<close> and
  \<^verbatim>\<open>clientsCountDec\<close>: the plain read of the counter, the test on the value read, and
  the compare-and-swap. The program counter carries the local variable \<^verbatim>\<open>count\<close>.
  \<open>Rejected\<close> is the return after \<^verbatim>\<open>clientsCountInc\<close> gave \<^verbatim>\<open>false\<close>,
  \<open>Running\<close> the body (which never writes the counter) with the decrement deferred,
  \<open>Done\<close> the return after the deferred \<^verbatim>\<open>clientsCountDec\<close>.
\<close>

datatype listener = UDP | TCP

datatype task_pc =
    IncRead
  | IncTest uint32
  | IncCAS uint32
  | Rejected
  | Running
  | DecRead
  | DecTest uint32
  | DecCAS uint32
  | Done

fun task_step :: "Proxy \<Rightarrow> task_pc \<Rightarrow> (Proxy \<times> task_pc) option" where
  "task_step proxy IncRead = Some (proxy, IncTest (clientsCount proxy))"
| "task_step proxy (IncTest count) =
     Some (proxy, if count \<ge> maxClients proxy then Rejected else IncCAS count)"
| "task_step proxy (IncCAS count) =
     (case CompareAndSwapUint32 (clientsCount proxy) count (count + 1) of
        (swapped, v) \<Rightarrow>
          Some (proxy\<lparr>clientsCount := v\<rparr>, if swapped then Running else IncRead))"
| "task_step proxy Rejected = None"
| "task_step proxy Running = Some (proxy, DecRead)"
| "task_step proxy DecRead = Some (proxy, DecTest (clientsCount proxy))"
| "task_step proxy (DecTest count) =
     Some (proxy, if count = 0 then Done else DecCAS count)"
| "task_step proxy (DecCAS count) =
     (case CompareAndSwapUint32 (clientsCount proxy) count (count - 1) of
        (swapped, v) \<Rightarrow>
          Some (proxy\<lparr>clientsCount := v\<rparr>, if swapped then Done else DecRead))"
| "task_step proxy Done = None"

text \<open>
  The running program: the shared proxy and the tasks spawned so far. A step is
  either a listener spawning a task (\<^verbatim>\<open>go func() { ... }()\<close>) or any one task doing
  its next access, in any interleaving.
\<close>

record system =
  shared :: Proxy
  tasks :: "(listener \<times> task_pc) list"

inductive step :: "system \<Rightarrow> system \<Rightarrow> bool" where
  spawn: "step s (s\<lparr>tasks := tasks s @ [(l, IncRead)]\<rparr>)"
| run: "i < length (tasks s) \<Longrightarrow> tasks s ! i = (l, pc) \<Longrightarrow>
        task_step (shared s) pc = Some (proxy', pc') \<Longrightarrow>
        step s (s\<lparr>shared := proxy', tasks := (tasks s)[i := (l, pc')]\<rparr>)"

text \<open>At start the counter is the zero value of \<^verbatim>\<open>Proxy{}\<close> and no task runs.\<close>

definition initial :: "system \<Rightarrow> bool" where
  "initial s \<longleftrightarrow> clientsCount (shared s) = 0 \<and> tasks s = []"

text \<open>
  A task holds a reservation from the successful compare-and-swap of
  \<^verbatim>\<open>clientsCountInc\<close> until the successful compare-and-swap of its deferred
  \<^verbatim>\<open>clientsCountDec\<close>.
\<close>

fun holding :: "task_pc \<Rightarrow> bool" where
  "holding Running = True"
| "holding DecRead = True"
| "holding (DecTest c) = True"
| "holding (DecCAS c) = True"
| "holding _ = False"

definition reservations :: "system \<Rightarrow> nat" where
  "reservations s = length (filter (\<lambda>t. holding (snd t)) (tasks s))"

fun local_ok :: "uint32 \<Rightarrow> task_pc \<Rightarrow> bool" where
  "local_ok m (IncCAS c) = (c < m)"
| "local_ok m (DecTest c) = (c \<noteq> 0)"
| "local_ok m (DecCAS c) = (c \<noteq> 0)"
| "local_ok m _ = True"

definition admission_inv :: "system \<Rightarrow> bool" where
  "admission_inv s \<longleftrightarrow>
     unat (clientsCount (shared s)) = reservations s
     \<and> clientsCount (shared s) \<le> maxClients (shared s)
     \<and> (\<forall>t \<in> set (tasks s). local_ok (maxClients (shared s)) (snd t))"

text \<open>The accesses of a task that belong to its deferred \<^verbatim>\<open>clientsCountDec\<close>.\<close>

fun in_dec :: "task_pc \<Rightarrow> bool" where
  "in_dec DecRead = True"
| "in_dec (DecTest c) = True"
| "in_dec (DecCAS c) = True"
| "in_dec _ = False"

subsection \<open>Key generation in StartProxy\<close>




subsection \<open>Constants, servers, plugins and the environment of a query\<close>

text \<open>
  The packet-size constants are declared in a file that is not part of the sources
  at hand; they are parameters of the model.
\<close>

record limits =
  MinDNSPacketSize :: int
  MaxDNSPacketSize :: int
  MaxDNSUDPPacketSize :: int
  ResponseOverhead :: int

text \<open>
  The protocol of a server. The code compares \<^verbatim>\<open>serverInfo.Proto\<close> with
  \<^verbatim>\<open>StampProtoTypeDNSCrypt\<close> and \<^verbatim>\<open>StampProtoTypeDoH\<close> and has a final
  \<^verbatim>\<open>else\<close> for every other value.
\<close>

datatype StampProtoType = StampProtoTypeDNSCrypt | StampProtoTypeDoH | StampProtoTypeOther

record ServerInfo =
  Name :: string
  Proto :: StampProtoType

text \<open>
  Modelled from the spec: the declaration of the plugin actions is missing from the
  sources; the spec gives the terminal action as one of Forward, Drop, Synth.
\<close>

datatype PluginsAction = PluginsActionForward | PluginsActionDrop | PluginsActionSynth

text \<open>
  The two fields of \<^verbatim>\<open>PluginsState\<close> that \<^verbatim>\<open>processIncomingQuery\<close> reads.
  \<open>'msg\<close> is the library's parsed DNS message (\<^verbatim>\<open>dns.Msg\<close>).
\<close>

record 'msg PluginsState =
  action :: PluginsAction
  synthResponse :: "'msg option"

text \<open>
  An \<^verbatim>\<open>http.Response\<close>: its status code and what \<^verbatim>\<open>ioutil.ReadAll(resp.Body)\<close> gives.
\<close>

record Response =
  StatusCode :: int
  Body :: "error + bytes"

text \<open>
  Everything \<^verbatim>\<open>processIncomingQuery\<close> calls that lives outside the sources at hand or
  outside the program: the plugin chains, the library's message packer, the crypto
  envelope, the sockets towards the upstream server, the TCP length framing and the
  HTTP client. Each is a function from what the call is given to what it returns;
  \<open>DialUDP\<close> and \<open>DialTCP\<close> give the error of the dial, if any; \<open>ReadUDP\<close> and
  \<open>ReadPrefixed\<close> give what the server answers to the bytes written.
\<close>

record 'msg env =
  ApplyQueryPlugins :: "string \<Rightarrow> bytes \<Rightarrow> bytes \<times> 'msg PluginsState"
  ApplyResponsePlugins :: "'msg PluginsState \<Rightarrow> bytes \<Rightarrow> bytes"
  PackBuffer :: "'msg \<Rightarrow> error + bytes"
  Encrypt :: "ServerInfo \<Rightarrow> bytes \<Rightarrow> string \<Rightarrow> error + bytes \<times> bytes"
  Decrypt :: "ServerInfo \<Rightarrow> bytes \<Rightarrow> bytes \<Rightarrow> error + bytes"
  DialUDP :: "ServerInfo \<Rightarrow> error option"
  ReadUDP :: "ServerInfo \<Rightarrow> bytes \<Rightarrow> error + bytes"
  DialTCP :: "ServerInfo \<Rightarrow> error option"
  ReadPrefixed :: "ServerInfo \<Rightarrow> bytes \<Rightarrow> error + bytes"
  PrefixWithSize :: "bytes \<Rightarrow> error + bytes"
  HTTPDo :: "ServerInfo \<Rightarrow> bytes \<Rightarrow> Response option \<times> error option"

text \<open>
  What a run of \<^verbatim>\<open>processIncomingQuery\<close> does to the world, in program order: the
  calls to the plugin chains and to \<^verbatim>\<open>Encrypt\<close>, the server-health notices, the
  exchanges with the upstream server, the packets written to the client socket,
  the updates of the question-size estimator, and the fatal exit.
\<close>

datatype event =
    ApplyQueryPluginsCall
  | EncryptCall
  | NoticeBegin ServerInfo
  | ExchangeUDP ServerInfo bytes
  | ExchangeTCP ServerInfo bytes
  | DoHPost ServerInfo bytes
  | ApplyResponsePluginsCall
  | NoticeFailure ServerInfo
  | NoticeSuccess ServerInfo
  | ClientWriteTo bytes
  | ClientWrite bytes
  | BlindAdjust
  | Adjust int
  | Warnf string
  | Fatal string

fun is_client_write :: "event \<Rightarrow> bool" where
  "is_client_write (ClientWriteTo p) = True"
| "is_client_write (ClientWrite p) = True"
| "is_client_write _ = False"

fun is_notice :: "event \<Rightarrow> bool" where
  "is_notice (NoticeBegin s) = True"
| "is_notice (NoticeFailure s) = True"
| "is_notice (NoticeSuccess s) = True"
| "is_notice _ = False"

fun is_upstream_contact :: "event \<Rightarrow> bool" where
  "is_upstream_contact EncryptCall = True"
| "is_upstream_contact (NoticeBegin s) = True"
| "is_upstream_contact (ExchangeUDP s q) = True"
| "is_upstream_contact (ExchangeTCP s q) = True"
| "is_upstream_contact (DoHPost s q) = True"
| "is_upstream_contact ApplyResponsePluginsCall = True"
| "is_upstream_contact _ = False"

fun is_estimator_update :: "event \<Rightarrow> bool" where
  "is_estimator_update BlindAdjust = True"
| "is_estimator_update (Adjust n) = True"
| "is_estimator_update _ = False"

text \<open>An event that neither writes to the client nor updates the estimator.\<close>

definition quiet :: "event \<Rightarrow> bool" where
  "quiet e \<longleftrightarrow> \<not> is_client_write e \<and> \<not> is_estimator_update e"

subsection \<open>Packet helpers\<close>

text \<open>
  Modelled from the spec: \<^verbatim>\<open>HasTCFlag\<close> is missing from the sources. The spec speaks of
  a response that carries the TC flag; in the DNS header the flag is bit \<open>0x02\<close> of
  the third byte. A packet too short to have that byte carries no flag.
\<close>

definition HasTCFlag :: "bytes \<Rightarrow> bool" where
  "HasTCFlag packet = (case drop 2 packet of [] \<Rightarrow> False | flags # _ \<Rightarrow> flags AND 2 = 2)"


text \<open>
  Modelled from the spec: \<^verbatim>\<open>TruncatedResponse\<close> is missing from the sources. The spec
  describes its result as a truncated shell: TC bit set, no answers. The shell is
  modelled as the twelve-byte DNS header of the packet with the TC bit set and
  the four section counts zero, and nothing after it; a packet without a whole
  header is an error.
\<close>

definition TruncatedResponse :: "bytes \<Rightarrow> error + bytes" where
  "TruncatedResponse packet =
     (case packet of
        id1 # id2 # flags1 # flags2 # _ # _ # _ # _ # _ # _ # _ # _ # _ \<Rightarrow>
          Inr [id1, id2, flags1 OR 2, flags2, 0, 0, 0, 0, 0, 0, 0, 0]
      | _ \<Rightarrow> Inl (Error ''short header''))"

subsection \<open>Exchanges with the upstream server\<close>

text \<open>
  \<^verbatim>\<open>exchangeWithUDPServer\<close>: the reply is read into a buffer of
  \<^verbatim>\<open>MaxDNSPacketSize\<close> bytes. \<^verbatim>\<open>exchangeWithTCPServer\<close>: the query is framed by
  \<^verbatim>\<open>PrefixWithSize\<close> and the reply read by \<^verbatim>\<open>ReadPrefixed\<close>.
\<close>

definition exchangeWithUDPServer ::
  "limits \<Rightarrow> 'msg env \<Rightarrow> ServerInfo \<Rightarrow> bytes \<Rightarrow> bytes \<Rightarrow> error + bytes" where
  "exchangeWithUDPServer K env serverInfo encryptedQuery clientNonce =
     (case DialUDP env serverInfo of
        Some err \<Rightarrow> Inl err
      | None \<Rightarrow>
          (case ReadUDP env serverInfo encryptedQuery of
             Inl err \<Rightarrow> Inl err
           | Inr datagram \<Rightarrow>
               Decrypt env serverInfo (take (nat (MaxDNSPacketSize K)) datagram) clientNonce))"

definition exchangeWithTCPServer ::
  "'msg env \<Rightarrow> ServerInfo \<Rightarrow> bytes \<Rightarrow> bytes \<Rightarrow> error + bytes" where
  "exchangeWithTCPServer env serverInfo encryptedQuery clientNonce =
     (case DialTCP env serverInfo of
        Some err \<Rightarrow> Inl err
      | None \<Rightarrow>
          (case PrefixWithSize env encryptedQuery of
             Inl err \<Rightarrow> Inl err
           | Inr prefixed \<Rightarrow>
               (case ReadPrefixed env serverInfo prefixed of
                  Inl err \<Rightarrow> Inl err
                | Inr encryptedResponse \<Rightarrow>
                    Decrypt env serverInfo encryptedResponse clientNonce)))"

subsection \<open>processIncomingQuery\<close>

text \<open>
  Lines 410 to 420: what the plugin verdict leaves in \<^verbatim>\<open>response\<close>. \<open>None\<close> is a
  return; \<open>Some []\<close> is the \<^verbatim>\<open>nil\<close> response that sends the query upstream.
\<close>

definition synthesize :: "'msg env \<Rightarrow> 'msg PluginsState \<Rightarrow> bytes option" where
  "synthesize env pluginsState =
     (if action pluginsState \<noteq> PluginsActionForward then
        (case (case synthResponse pluginsState of
                 None \<Rightarrow> Inr []
               | Some msg \<Rightarrow> PackBuffer env msg) of
           Inl err \<Rightarrow> None
         | Inr response \<Rightarrow>
             if action pluginsState = PluginsActionDrop then None else Some response)
      else Some [])"

text \<open>
  Lines 422 to 436, the DNSCrypt branch. A failed \<^verbatim>\<open>Encrypt\<close> returns before
  \<^verbatim>\<open>noticeBegin\<close>; a failed exchange calls \<^verbatim>\<open>noticeFailure\<close> and returns. The second
  component is the response, \<open>None\<close> when the function has returned.
\<close>

definition exchangeDNSCrypt ::
  "limits \<Rightarrow> 'msg env \<Rightarrow> ServerInfo \<Rightarrow> string \<Rightarrow> bytes \<Rightarrow> event list \<times> bytes option" where
  "exchangeDNSCrypt K env serverInfo serverProto query =
     (case Encrypt env serverInfo query serverProto of
        Inl err \<Rightarrow> ([EncryptCall], None)
      | Inr (encryptedQuery, clientNonce) \<Rightarrow>
          (if serverProto = ''udp'' then
             (case exchangeWithUDPServer K env serverInfo encryptedQuery clientNonce of
                Inl err \<Rightarrow>
                  ([EncryptCall, NoticeBegin serverInfo, ExchangeUDP serverInfo encryptedQuery,
                    NoticeFailure serverInfo], None)
              | Inr response \<Rightarrow>
                  ([EncryptCall, NoticeBegin serverInfo, ExchangeUDP serverInfo encryptedQuery],
                   Some response))
           else
             (case exchangeWithTCPServer env serverInfo encryptedQuery clientNonce of
                Inl err \<Rightarrow>
                  ([EncryptCall, NoticeBegin serverInfo, ExchangeTCP serverInfo encryptedQuery,
                    NoticeFailure serverInfo], None)
              | Inr response \<Rightarrow>
                  ([EncryptCall, NoticeBegin serverInfo, ExchangeTCP serverInfo encryptedQuery],
                   Some response))))"

text \<open>
  Lines 437 to 462, the DoH branch. The request is refused when
  \<^verbatim>\<open>(err == nil && resp != nil && (StatusCode < 200 || StatusCode > 299)) || err != nil || resp == nil\<close>,
  and a failed read of the body returns as well; neither path calls
  \<^verbatim>\<open>noticeFailure\<close>.
\<close>

definition exchangeDoH ::
  "'msg env \<Rightarrow> ServerInfo \<Rightarrow> bytes \<Rightarrow> event list \<times> bytes option" where
  "exchangeDoH env serverInfo query =
     (case HTTPDo env serverInfo query of
        (resp, err) \<Rightarrow>
          (case resp of
             None \<Rightarrow> ([DoHPost serverInfo query], None)
           | Some r \<Rightarrow>
               if (err = None \<and> (StatusCode r < 200 \<or> StatusCode r > 299)) \<or> err \<noteq> None
               then ([DoHPost serverInfo query], None)
               else (case Body r of
                       Inl err \<Rightarrow> ([DoHPost serverInfo query], None)
                     | Inr response \<Rightarrow> ([DoHPost serverInfo query], Some response))))"

text \<open>
  Lines 421 to 471. The test \<^verbatim>\<open>if err != nil\<close> of line 466 reads the \<^verbatim>\<open>err\<close> declared
  at line 409; both branches above declare an \<^verbatim>\<open>err\<close> of their own with \<^verbatim>\<open>:=\<close>, so
  the outer one is still \<^verbatim>\<open>nil\<close> there and the test never fires.
\<close>

definition upstream ::
  "limits \<Rightarrow> 'msg env \<Rightarrow> ServerInfo \<Rightarrow> string \<Rightarrow> bytes \<Rightarrow> 'msg PluginsState
     \<Rightarrow> event list \<times> bytes option" where
  "upstream K env serverInfo serverProto query pluginsState =
     (case (if Proto serverInfo = StampProtoTypeDNSCrypt
            then exchangeDNSCrypt K env serverInfo serverProto query
            else if Proto serverInfo = StampProtoTypeDoH
            then exchangeDoH env serverInfo query
            else ([Fatal ''Unsupported protocol''], None)) of
        (evs, None) \<Rightarrow> (evs, None)
      | (evs, Some response) \<Rightarrow>
          (evs @ [ApplyResponsePluginsCall],
           Some (ApplyResponsePlugins env pluginsState response)))"

text \<open>Lines 406 to 471: the response that reaches the size policy, if any.\<close>

definition obtainResponse ::
  "limits \<Rightarrow> 'msg env \<Rightarrow> ServerInfo \<Rightarrow> string \<Rightarrow> string \<Rightarrow> bytes
     \<Rightarrow> event list \<times> bytes option" where
  "obtainResponse K env serverInfo clientProto serverProto query =
     (case ApplyQueryPlugins env clientProto query of
        (query', pluginsState) \<Rightarrow>
          (case synthesize env pluginsState of
             None \<Rightarrow> ([ApplyQueryPluginsCall], None)
           | Some response \<Rightarrow>
               if length response = 0 then
                 (case upstream K env serverInfo serverProto query' pluginsState of
                    (evs, r) \<Rightarrow> (ApplyQueryPluginsCall # evs, r))
               else ([ApplyQueryPluginsCall], Some response)))"

text \<open>Lines 472 to 497: size policy, emission, estimator update, success notice.\<close>

definition emitResponse ::
  "limits \<Rightarrow> 'msg env \<Rightarrow> ServerInfo \<Rightarrow> string \<Rightarrow> bytes \<Rightarrow> event list" where
  "emitResponse K env serverInfo clientProto response =
     (if int (length response) < MinDNSPacketSize K
         \<or> int (length response) > MaxDNSPacketSize K
      then [NoticeFailure serverInfo]
      else if clientProto = ''udp'' then
        (case (if int (length response) > MaxDNSUDPPacketSize K
               then TruncatedResponse response else Inr response) of
           Inl err \<Rightarrow> []
         | Inr response' \<Rightarrow>
             [ClientWriteTo response',
              if HasTCFlag response' then BlindAdjust
              else Adjust (ResponseOverhead K + int (length response')),
              NoticeSuccess serverInfo])
      else
        (case PrefixWithSize env response of
           Inl err \<Rightarrow> [NoticeFailure serverInfo]
         | Inr response' \<Rightarrow> [ClientWrite response', NoticeSuccess serverInfo]))"

definition processIncomingQuery ::
  "limits \<Rightarrow> 'msg env \<Rightarrow> ServerInfo option \<Rightarrow> string \<Rightarrow> string \<Rightarrow> bytes \<Rightarrow> event list" where
  "processIncomingQuery K env serverInfo clientProto serverProto query =
     (if int (length query) < MinDNSPacketSize K \<or> serverInfo = None then []
      else (case serverInfo of
              None \<Rightarrow> []
            | Some si \<Rightarrow>
                (case obtainResponse K env si clientProto serverProto query of
                   (evs, None) \<Rightarrow> evs
                 | (evs, Some response) \<Rightarrow> evs @ emitResponse K env si clientProto response)))"

subsection \<open>The tasks and loops of the listeners\<close>

text \<open>
  The goroutine of \<^verbatim>\<open>udpListener\<close> for one packet and the goroutine of
  \<^verbatim>\<open>tcpListener\<close> for one connection, each run without interference. \<open>getOne\<close> is
  what \<^verbatim>\<open>proxy.serversInfo.getOne()\<close> gives, \<open>clientRead\<close> what
  \<^verbatim>\<open>ReadPrefixed(clientPc)\<close> gives. \<open>tcpClient\<close> is the part of the TCP
  goroutine after the admission (lines 324 to 330).
\<close>

definition udpTask ::
  "limits \<Rightarrow> 'msg env \<Rightarrow> ServerInfo option \<Rightarrow> bytes \<Rightarrow> Proxy \<Rightarrow> (event list \<times> Proxy) option" where
  "udpTask K env getOne packet proxy =
     (case clientsCountInc proxy of
        None \<Rightarrow> None
      | Some (admitted, proxy1) \<Rightarrow>
          if \<not> admitted then Some ([Warnf ''Too many connections''], proxy1)
          else
            (let evs = processIncomingQuery K env getOne ''udp'' (mainProto proxy1) packet
             in (case clientsCountDec proxy1 of
                   None \<Rightarrow> None
                 | Some proxy2 \<Rightarrow> Some (evs, proxy2))))"

definition tcpClient ::
  "limits \<Rightarrow> 'msg env \<Rightarrow> ServerInfo option \<Rightarrow> error + bytes \<Rightarrow> event list" where
  "tcpClient K env getOne clientRead =
     (case clientRead of
        Inl err \<Rightarrow> []
      | Inr packet \<Rightarrow>
          if int (length packet) < MinDNSPacketSize K then []
          else processIncomingQuery K env getOne ''tcp'' ''tcp'' packet)"

definition tcpTask ::
  "limits \<Rightarrow> 'msg env \<Rightarrow> ServerInfo option \<Rightarrow> error + bytes \<Rightarrow> Proxy
     \<Rightarrow> (event list \<times> Proxy) option" where
  "tcpTask K env getOne clientRead proxy =
     (case clientsCountInc proxy of
        None \<Rightarrow> None
      | Some (admitted, proxy1) \<Rightarrow>
          if \<not> admitted then Some ([Warnf ''Too many connections''], proxy1)
          else
            (let evs = tcpClient K env getOne clientRead
             in (case clientsCountDec proxy1 of
                   None \<Rightarrow> None
                 | Some proxy2 \<Rightarrow> Some (evs, proxy2))))"

text \<open>
  The loops. \<open>ReadFrom n\<close> and \<open>Accept n\<close> are what the \<open>n\<close>-th call on the socket
  returns; the result of a loop is the list of tasks it has spawned when it
  returns, and \<open>None\<close> is a loop that never returns. \<^verbatim>\<open>udpListener\<close> returns on
  an error of \<^verbatim>\<open>ReadFrom\<close>; \<^verbatim>\<open>tcpListener\<close> answers an error of \<^verbatim>\<open>Accept\<close> with
  \<^verbatim>\<open>continue\<close>.
\<close>

partial_function (option) udpListener ::
  "limits \<Rightarrow> (nat \<Rightarrow> error + bytes) \<Rightarrow> nat \<Rightarrow> bytes list \<Rightarrow> bytes list option" where
  "udpListener K ReadFrom n spawned =
     (case ReadFrom n of
        Inl err \<Rightarrow> Some spawned
      | Inr datagram \<Rightarrow>
          udpListener K ReadFrom (n + 1)
            (spawned @ [take (nat (MaxDNSPacketSize K - 1)) datagram]))"

partial_function (option) tcpListener ::
  "(nat \<Rightarrow> error + 'conn) \<Rightarrow> nat \<Rightarrow> 'conn list \<Rightarrow> 'conn list option" where
  "tcpListener Accept n spawned =
     (case Accept n of
        Inl err \<Rightarrow> tcpListener Accept (n + 1) spawned
      | Inr clientPc \<Rightarrow> tcpListener Accept (n + 1) (spawned @ [clientPc]))"

subsection \<open>Example inputs\<close>

text \<open>
  Concrete inputs on which the theorems below are exercised. The limits are small
  so that the example packets stay short. In \<open>env_example\<close> the plugins forward
  the query unchanged, the envelope is the identity and the upstream server
  answers the query with the same bytes followed by \<open>extra\<close>.
\<close>

definition proxy_example :: "uint32 \<Rightarrow> uint32 \<Rightarrow> Proxy" where
  "proxy_example n m =
     \<lparr>proxyPublicKey = [], proxySecretKey = [], mainProto = ''udp'',
      clientsCount = n, maxClients = m\<rparr>"

definition system_example :: "uint32 \<Rightarrow> (listener \<times> task_pc) list \<Rightarrow> system" where
  "system_example n ts = \<lparr>shared = proxy_example n 1, tasks = ts\<rparr>"

definition limits_example :: limits where
  "limits_example =
     \<lparr>MinDNSPacketSize = 17, MaxDNSPacketSize = 40, MaxDNSUDPPacketSize = 20,
      ResponseOverhead = 48\<rparr>"

definition query_example :: bytes where
  "query_example = [0x12, 0x34, 1, 0, 0, 1, 0, 0, 0, 0, 0, 0, 0, 0, 1, 0, 1]"

definition server_example :: "StampProtoType \<Rightarrow> ServerInfo" where
  "server_example p = \<lparr>Name = ''resolver'', Proto = p\<rparr>"

definition env_example :: "bytes \<Rightarrow> bytes env" where
  "env_example extra =
     \<lparr>ApplyQueryPlugins =
        (\<lambda>clientProto query.
           (query, \<lparr>action = PluginsActionForward, synthResponse = None\<rparr>)),
      ApplyResponsePlugins = (\<lambda>pluginsState response. response),
      PackBuffer = (\<lambda>msg. Inr msg),
      Encrypt = (\<lambda>serverInfo query serverProto. Inr (query, [7])),
      Decrypt = (\<lambda>serverInfo encrypted nonce. Inr encrypted),
      DialUDP = (\<lambda>serverInfo. None),
      ReadUDP = (\<lambda>serverInfo sent. Inr (sent @ extra)),
      DialTCP = (\<lambda>serverInfo. None),
      ReadPrefixed = (\<lambda>serverInfo sent. Inr (drop 2 sent @ extra)),
      PrefixWithSize = (\<lambda>packet. Inr (0 # of_nat (length packet) # packet)),
      HTTPDo =
        (\<lambda>serverInfo query.
           (Some \<lparr>StatusCode = 200, Body = Inr (query @ extra)\<rparr>, None))\<rparr>"

text \<open>\<open>n\<close> zero bytes, appended by the upstream server of \<open>env_example\<close>.\<close>

definition extra_example :: "nat \<Rightarrow> bytes" where
  "extra_example n = replicate n 0"

text \<open>
  Variants of \<open>env_example []\<close>: \<^verbatim>\<open>Encrypt\<close> fails; the UDP dial fails; the DoH
  server answers with status 500; the query plugins synthesize a response (the
  query itself, already packed).
\<close>

definition env_encrypt_fails :: "bytes env" where
  "env_encrypt_fails =
     (env_example [])\<lparr>Encrypt := (\<lambda>serverInfo query serverProto. Inl (Error ''encrypt''))\<rparr>"

definition env_dial_fails :: "bytes env" where
  "env_dial_fails =
     (env_example [])\<lparr>DialUDP := (\<lambda>serverInfo. Some (Error ''connection refused''))\<rparr>"

definition env_doh_500 :: "bytes env" where
  "env_doh_500 =
     (env_example [])\<lparr>HTTPDo :=
        (\<lambda>serverInfo query. (Some \<lparr>StatusCode = 500, Body = Inr []\<rparr>, None))\<rparr>"

definition env_synth_example :: "bytes env" where
  "env_synth_example =
     (env_example [])\<lparr>ApplyQueryPlugins :=
        (\<lambda>clientProto query.
           (query, \<lparr>action = PluginsActionSynth, synthResponse = Some query\<rparr>))\<rparr>"





text \<open>A socket that has been closed: every call returns an error.\<close>

definition closed_socket :: "nat \<Rightarrow> error + 'a" where
  "closed_socket n = Inl (Error ''use of closed network connection'')"

section \<open>Properties\<close>

subsection \<open>Word arithmetic of the counter\<close>

lemma unat_inc_below: "(c::uint32) < m \<Longrightarrow> unat (c + 1) = Suc (unat c)"
proof -
  assume lt: "c < m"
  have "1 + c \<noteq> 0"
  proof
    assume "1 + c = 0"
    then have "c = - 1" by (simp add: add_eq_0_iff)
    with lt show False by simp
  qed
  then have "unat (1 + c) = Suc (unat c)" by (rule unatSuc)
  then show ?thesis by (simp add: add.commute)
qed

lemma unat_dec_nonzero: "(c::uint32) \<noteq> 0 \<Longrightarrow> Suc (unat (c - 1)) = unat c"
  using unat_minus_one word_eq_iff_unsigned by fastforce

subsection \<open>The decrement run alone\<close>

lemma clientsCountDec_returns:
  "clientsCountDec proxy =
     Some (if clientsCount proxy = 0 then proxy
           else proxy\<lparr>clientsCount := clientsCount proxy - 1\<rparr>)"
  by (subst clientsCountDec.simps) (simp add: CompareAndSwapUint32_def Let_def)

subsection \<open>C1: the admission counter never exceeds maxClients\<close>

text \<open>
  The invariant of the concurrent tasks: the counter equals the number of tasks
  that hold a reservation, it is at most \<^verbatim>\<open>maxClients\<close>, and the value a task
  carries into a compare-and-swap has passed the test before it.
\<close>

lemma filter_update_count:
  "i < length xs \<Longrightarrow>
   length (filter P (xs[i := y])) + (if P (xs ! i) then 1 else 0)
     = length (filter P xs) + (if P y then 1 else 0)"
proof (induction xs arbitrary: i)
  case Nil
  then show ?case by simp
next
  case (Cons x xs)
  show ?case
  proof (cases i)
    case 0
    then show ?thesis by simp
  next
    case (Suc j)
    with Cons.prems have "j < length xs" by simp
    from Cons.IH [OF this] Suc show ?thesis by simp
  qed
qed

lemma holder_counted:
  "i < length xs \<Longrightarrow> P (xs ! i) \<Longrightarrow> 0 < length (filter P xs)"
  by (metis filter_empty_conv length_greater_0_conv nth_mem)

lemma task_step_maxClients:
  "task_step p pc = Some (p', pc') \<Longrightarrow> maxClients p' = maxClients p"
  by (cases pc) (auto simp: CompareAndSwapUint32_def split: if_splits)

lemma dec_le: "(c::uint32) \<le> m \<Longrightarrow> c \<noteq> 0 \<Longrightarrow> c - 1 \<le> m"
proof -
  assume "c \<le> m" and nz: "c \<noteq> 0"
  then have "unat c \<le> unat m" by (simp add: word_le_nat_alt)
  moreover have "Suc (unat (c - 1)) = unat c" using nz by (rule unat_dec_nonzero)
  ultimately have "unat (c - 1) \<le> unat m" by simp
  then show ?thesis by (simp add: word_le_nat_alt)
qed

lemma task_step_count:
  assumes "task_step p pc = Some (p', pc')"
    and "local_ok (maxClients p) pc"
    and "holding pc \<longrightarrow> clientsCount p \<noteq> 0"
  shows "unat (clientsCount p') + (if holding pc then 1 else 0)
           = unat (clientsCount p) + (if holding pc' then 1 else 0)"
  using assms
  by (cases pc)
     (auto simp: CompareAndSwapUint32_def unat_inc_below unat_dec_nonzero split: if_splits)

lemma task_step_le:
  assumes "task_step p pc = Some (p', pc')"
    and "local_ok (maxClients p) pc"
    and "clientsCount p \<le> maxClients p"
  shows "clientsCount p' \<le> maxClients p"
  using assms
  by (cases pc) (auto simp: CompareAndSwapUint32_def inc_le dec_le split: if_splits)

lemma task_step_local_ok:
  assumes "task_step p pc = Some (p', pc')"
    and "local_ok (maxClients p) pc"
    and "holding pc \<longrightarrow> clientsCount p \<noteq> 0"
  shows "local_ok (maxClients p) pc'"
  using assms
  by (cases pc) (auto simp: CompareAndSwapUint32_def not_le split: if_splits)

lemma step_inv: "step s s' \<Longrightarrow> admission_inv s \<Longrightarrow> admission_inv s'"
proof (induction rule: step.induct)
  case (spawn s l)
  then show ?case by (simp add: admission_inv_def reservations_def)
next
  case (run i s l pc proxy' pc')
  let ?H = "\<lambda>t::listener \<times> task_pc. holding (snd t)"
  from run.prems have cnt: "unat (clientsCount (shared s)) = length (filter ?H (tasks s))"
    and le: "clientsCount (shared s) \<le> maxClients (shared s)"
    and loc: "\<forall>t \<in> set (tasks s). local_ok (maxClients (shared s)) (snd t)"
    by (simp_all add: admission_inv_def reservations_def)
  from run.hyps(1,2) have mem: "(l, pc) \<in> set (tasks s)" by (metis nth_mem)
  with loc have ok: "local_ok (maxClients (shared s)) pc" by auto
  have nz: "holding pc \<longrightarrow> clientsCount (shared s) \<noteq> 0"
  proof
    assume "holding pc"
    with run.hyps(1,2) have "0 < length (filter ?H (tasks s))"
      by (intro holder_counted [of i]) simp_all
    with cnt have "0 < unat (clientsCount (shared s))" by simp
    then show "clientsCount (shared s) \<noteq> 0" by (simp add: unat_gt_0)
  qed
  have mx: "maxClients proxy' = maxClients (shared s)"
    using run.hyps(3) by (rule task_step_maxClients)
  have upd: "length (filter ?H ((tasks s)[i := (l, pc')])) + (if holding pc then 1 else 0)
               = length (filter ?H (tasks s)) + (if holding pc' then 1 else 0)"
    using filter_update_count [OF run.hyps(1), of ?H "(l, pc')"] run.hyps(2) by simp
  have c1: "unat (clientsCount proxy') = length (filter ?H ((tasks s)[i := (l, pc')]))"
    using task_step_count [OF run.hyps(3) ok nz] upd cnt by (simp split: if_splits)
  have c2: "clientsCount proxy' \<le> maxClients proxy'"
    using task_step_le [OF run.hyps(3) ok le] mx by simp
  have ok': "local_ok (maxClients (shared s)) pc'"
    using run.hyps(3) ok nz by (rule task_step_local_ok)
  have c3: "\<forall>t \<in> set ((tasks s)[i := (l, pc')]). local_ok (maxClients proxy') (snd t)"
  proof
    fix t assume "t \<in> set ((tasks s)[i := (l, pc')])"
    then have "t = (l, pc') \<or> t \<in> set (tasks s)"
      using set_update_subset_insert [of "tasks s" i "(l, pc')"] by auto
    then show "local_ok (maxClients proxy') (snd t)" using ok' loc mx by auto
  qed
  from c1 c2 c3 show ?case by (simp add: admission_inv_def reservations_def)
qed

lemma initial_inv: "initial s \<Longrightarrow> admission_inv s"
  by (simp add: initial_def admission_inv_def reservations_def)

lemma reachable_inv: "step\<^sup>*\<^sup>* s0 s \<Longrightarrow> initial s0 \<Longrightarrow> admission_inv s"
  by (induction rule: rtranclp_induct) (auto intro: initial_inv step_inv)

lemma clientsCountInc_returns:
  "clientsCountInc proxy =
     Some (if clientsCount proxy \<ge> maxClients proxy then (False, proxy)
           else (True, proxy\<lparr>clientsCount := clientsCount proxy + 1\<rparr>))"
  by (subst clientsCountInc.simps) (simp add: CompareAndSwapUint32_def Let_def)


lemma reachable_maxClients: "step\<^sup>*\<^sup>* s0 s \<Longrightarrow> maxClients (shared s) = maxClients (shared s0)"
proof (induction rule: rtranclp_induct)
  case base
  show ?case by simp
next
  case (step s s')
  from step.hyps(2) have "maxClients (shared s') = maxClients (shared s)"
    by (cases rule: step.cases) (auto dest: task_step_maxClients)
  with step.IH show ?case by simp
qed

lemma inc_nonzero: "(c::uint32) < m \<Longrightarrow> c + 1 \<noteq> 0"
proof
  assume lt: "c < m" and z: "c + 1 = 0"
  from lt have "unat (c + 1) = Suc (unat c)" by (rule unat_inc_below)
  with z show False by simp
qed

lemma udpTask_returns:
  "\<exists>evs. udpTask K env getOne packet proxy = Some (evs, proxy)"
  by (simp add: udpTask_def clientsCountInc_returns clientsCountDec_returns Let_def
        not_le inc_nonzero)

lemma tcpTask_returns:
  "\<exists>evs. tcpTask K env getOne clientRead proxy = Some (evs, proxy)"
  by (simp add: tcpTask_def clientsCountInc_returns clientsCountDec_returns Let_def
        not_le inc_nonzero)

text \<open>
  C1. \<^verbatim>\<open>clientsCountInc\<close> returns; it returns \<^verbatim>\<open>true\<close> exactly when the counter was
  strictly below \<^verbatim>\<open>maxClients\<close>, and then the counter has grown by one and is
  still at most \<^verbatim>\<open>maxClients\<close>; it returns \<^verbatim>\<open>false\<close> with the proxy unchanged
  otherwise. In every state that the listeners' tasks reach from the start, in
  any interleaving, the counter is at most \<^verbatim>\<open>maxClients\<close> and equals the number
  of tasks between their reservation and their release, so a task that has
  returned has released. A UDP or TCP task run alone leaves the counter as it
  found it.
\<close>

theorem admission_counter_bounded:
  "(\<exists>admitted proxy'. clientsCountInc proxy = Some (admitted, proxy')
       \<and> (admitted \<longleftrightarrow> clientsCount proxy < maxClients proxy)
       \<and> (admitted \<longrightarrow> proxy' = proxy\<lparr>clientsCount := clientsCount proxy + 1\<rparr>
             \<and> unat (clientsCount proxy') = Suc (unat (clientsCount proxy))
             \<and> clientsCount proxy' \<le> maxClients proxy)
       \<and> (\<not> admitted \<longrightarrow> proxy' = proxy))
   \<and> (initial s0 \<and> step\<^sup>*\<^sup>* s0 s \<longrightarrow>
         clientsCount (shared s) \<le> maxClients (shared s0)
         \<and> unat (clientsCount (shared s)) = reservations s)
   \<and> (\<exists>evs. udpTask K env getOne packet proxy = Some (evs, proxy))
   \<and> (\<exists>evs. tcpTask K env getOne clientRead proxy = Some (evs, proxy))"
proof (intro conjI impI)
  show "\<exists>admitted proxy'. clientsCountInc proxy = Some (admitted, proxy')
       \<and> (admitted \<longleftrightarrow> clientsCount proxy < maxClients proxy)
       \<and> (admitted \<longrightarrow> proxy' = proxy\<lparr>clientsCount := clientsCount proxy + 1\<rparr>
             \<and> unat (clientsCount proxy') = Suc (unat (clientsCount proxy))
             \<and> clientsCount proxy' \<le> maxClients proxy)
       \<and> (\<not> admitted \<longrightarrow> proxy' = proxy)"
    by (auto simp: clientsCountInc_returns not_le unat_inc_below inc_le)
next
  assume r: "initial s0 \<and> step\<^sup>*\<^sup>* s0 s"
  then have inv: "admission_inv s" by (auto intro: reachable_inv)
  from r have "maxClients (shared s) = maxClients (shared s0)"
    by (auto intro: reachable_maxClients)
  with inv show "clientsCount (shared s) \<le> maxClients (shared s0)"
    by (simp add: admission_inv_def)
  from inv show "unat (clientsCount (shared s)) = reservations s"
    by (simp add: admission_inv_def)
next
  show "\<exists>evs. udpTask K env getOne packet proxy = Some (evs, proxy)"
    by (rule udpTask_returns)
  show "\<exists>evs. tcpTask K env getOne clientRead proxy = Some (evs, proxy)"
    by (rule tcpTask_returns)
qed

lemma example_run:
  "step\<^sup>*\<^sup>* (system_example 0 []) (system_example 1 [(UDP, Running), (TCP, Rejected)])"
proof -
  have 1: "step (system_example 0 []) (system_example 0 [(UDP, IncRead)])"
    using step.spawn [of "system_example 0 []" UDP] by (simp add: system_example_def)
  have 2: "step (system_example 0 [(UDP, IncRead)])
                (system_example 0 [(UDP, IncRead), (TCP, IncRead)])"
    using step.spawn [of "system_example 0 [(UDP, IncRead)]" TCP]
    by (simp add: system_example_def)
  have 3: "step (system_example 0 [(UDP, IncRead), (TCP, IncRead)])
                (system_example 0 [(UDP, IncTest 0), (TCP, IncRead)])"
    using step.run [of 0 "system_example 0 [(UDP, IncRead), (TCP, IncRead)]" UDP IncRead
                       "proxy_example 0 1" "IncTest 0"]
    by (simp add: system_example_def proxy_example_def)
  have 4: "step (system_example 0 [(UDP, IncTest 0), (TCP, IncRead)])
                (system_example 0 [(UDP, IncCAS 0), (TCP, IncRead)])"
    using step.run [of 0 "system_example 0 [(UDP, IncTest 0), (TCP, IncRead)]" UDP "IncTest 0"
                       "proxy_example 0 1" "IncCAS 0"]
    by (simp add: system_example_def proxy_example_def)
  have 5: "step (system_example 0 [(UDP, IncCAS 0), (TCP, IncRead)])
                (system_example 1 [(UDP, Running), (TCP, IncRead)])"
    using step.run [of 0 "system_example 0 [(UDP, IncCAS 0), (TCP, IncRead)]" UDP "IncCAS 0"
                       "proxy_example 1 1" Running]
    by (simp add: system_example_def proxy_example_def CompareAndSwapUint32_def)
  have 6: "step (system_example 1 [(UDP, Running), (TCP, IncRead)])
                (system_example 1 [(UDP, Running), (TCP, IncTest 1)])"
    using step.run [of 1 "system_example 1 [(UDP, Running), (TCP, IncRead)]" TCP IncRead
                       "proxy_example 1 1" "IncTest 1"]
    by (simp add: system_example_def proxy_example_def)
  have 7: "step (system_example 1 [(UDP, Running), (TCP, IncTest 1)])
                (system_example 1 [(UDP, Running), (TCP, Rejected)])"
    using step.run [of 1 "system_example 1 [(UDP, Running), (TCP, IncTest 1)]" TCP "IncTest 1"
                       "proxy_example 1 1" Rejected]
    by (simp add: system_example_def proxy_example_def)
  from 1 have "step\<^sup>*\<^sup>* (system_example 0 []) (system_example 0 [(UDP, IncRead)])"
    by (rule r_into_rtranclp)
  from this 2
  have "step\<^sup>*\<^sup>* (system_example 0 []) (system_example 0 [(UDP, IncRead), (TCP, IncRead)])"
    by (rule rtranclp.rtrancl_into_rtrancl)
  from this 3
  have "step\<^sup>*\<^sup>* (system_example 0 []) (system_example 0 [(UDP, IncTest 0), (TCP, IncRead)])"
    by (rule rtranclp.rtrancl_into_rtrancl)
  from this 4
  have "step\<^sup>*\<^sup>* (system_example 0 []) (system_example 0 [(UDP, IncCAS 0), (TCP, IncRead)])"
    by (rule rtranclp.rtrancl_into_rtrancl)
  from this 5
  have "step\<^sup>*\<^sup>* (system_example 0 []) (system_example 1 [(UDP, Running), (TCP, IncRead)])"
    by (rule rtranclp.rtrancl_into_rtrancl)
  from this 6
  have "step\<^sup>*\<^sup>* (system_example 0 []) (system_example 1 [(UDP, Running), (TCP, IncTest 1)])"
    by (rule rtranclp.rtrancl_into_rtrancl)
  from this 7 show ?thesis
    by (rule rtranclp.rtrancl_into_rtrancl)
qed



theorem admission_counter_bounded_witness:
  "initial (system_example 0 [])
   \<and> step\<^sup>*\<^sup>* (system_example 0 []) (system_example 1 [(UDP, Running), (TCP, Rejected)])
   \<and> clientsCount (shared (system_example 1 [(UDP, Running), (TCP, Rejected)]))
        \<le> maxClients (shared (system_example 0 []))
   \<and> unat (clientsCount (shared (system_example 1 [(UDP, Running), (TCP, Rejected)]))) = 1
   \<and> reservations (system_example 1 [(UDP, Running), (TCP, Rejected)]) = 1
   \<and> clientsCountInc (proxy_example 0 1) = Some (True, proxy_example 1 1)
   \<and> clientsCountInc (proxy_example 1 1) = Some (False, proxy_example 1 1)"
proof -
  have i: "initial (system_example 0 [])"
    by (simp add: initial_def system_example_def proxy_example_def)
  note t = admission_counter_bounded
    [of _ "system_example 0 []" "system_example 1 [(UDP, Running), (TCP, Rejected)]"
        limits_example "env_example []" None query_example "Inr query_example"]
  from t [of "proxy_example 0 1"] i example_run
  have a: "clientsCount (shared (system_example 1 [(UDP, Running), (TCP, Rejected)]))
             \<le> maxClients (shared (system_example 0 []))"
    and b: "unat (clientsCount (shared (system_example 1 [(UDP, Running), (TCP, Rejected)])))
              = reservations (system_example 1 [(UDP, Running), (TCP, Rejected)])"
    by blast+
  from t [of "proxy_example 0 1"]
  have c: "clientsCountInc (proxy_example 0 1) = Some (True, proxy_example 1 1)"
    by (auto simp: proxy_example_def)
  from t [of "proxy_example 1 1"]
  have d: "clientsCountInc (proxy_example 1 1) = Some (False, proxy_example 1 1)"
    by (auto simp: proxy_example_def)
  have e: "reservations (system_example 1 [(UDP, Running), (TCP, Rejected)]) = 1"
    by (simp add: reservations_def system_example_def)
  from i example_run a b c d e show ?thesis by simp
qed

subsection \<open>C5: clientsCountDec\<close>

lemma dec_step_counter:
  assumes "task_step p pc = Some (p', pc')" and "in_dec pc" and "local_ok m pc"
  shows "clientsCount p' = clientsCount p
         \<or> (clientsCount p \<noteq> 0 \<and> Suc (unat (clientsCount p')) = unat (clientsCount p))"
  using assms
  by (cases pc) (auto simp: CompareAndSwapUint32_def unat_dec_nonzero split: if_splits)

text \<open>
  C5. \<^verbatim>\<open>clientsCountDec\<close> run alone returns (the loop ends); on a zero counter it
  returns the proxy unchanged; on a positive counter the counter afterwards is
  exactly one less, read as an unsigned number, and nothing else of the proxy
  changes. Under any interleaving with the other tasks, every access a task makes
  inside its \<^verbatim>\<open>clientsCountDec\<close> either leaves the counter as it is or takes it
  from a positive value to exactly one less, so the counter never wraps below
  zero.
\<close>

theorem clientsCountDec_decrement_or_noop:
  "(\<exists>proxy'. clientsCountDec proxy = Some proxy'
      \<and> (clientsCount proxy = 0 \<longrightarrow> proxy' = proxy)
      \<and> (clientsCount proxy \<noteq> 0 \<longrightarrow>
           Suc (unat (clientsCount proxy')) = unat (clientsCount proxy)
           \<and> proxy' = proxy\<lparr>clientsCount := clientsCount proxy - 1\<rparr>))
   \<and> (initial s0 \<and> step\<^sup>*\<^sup>* s0 s \<and> i < length (tasks s) \<and> tasks s ! i = (l, pc) \<and> in_dec pc
        \<and> task_step (shared s) pc = Some (proxy1, pc')
      \<longrightarrow> clientsCount proxy1 = clientsCount (shared s)
          \<or> (clientsCount (shared s) \<noteq> 0
              \<and> Suc (unat (clientsCount proxy1)) = unat (clientsCount (shared s))))"
proof (intro conjI impI)
  show "\<exists>proxy'. clientsCountDec proxy = Some proxy'
      \<and> (clientsCount proxy = 0 \<longrightarrow> proxy' = proxy)
      \<and> (clientsCount proxy \<noteq> 0 \<longrightarrow>
           Suc (unat (clientsCount proxy')) = unat (clientsCount proxy)
           \<and> proxy' = proxy\<lparr>clientsCount := clientsCount proxy - 1\<rparr>)"
    by (simp add: clientsCountDec_returns unat_dec_nonzero)
next
  assume a: "initial s0 \<and> step\<^sup>*\<^sup>* s0 s \<and> i < length (tasks s) \<and> tasks s ! i = (l, pc) \<and> in_dec pc
        \<and> task_step (shared s) pc = Some (proxy1, pc')"
  then have "admission_inv s" by (auto intro: reachable_inv)
  moreover from a have "(l, pc) \<in> set (tasks s)" by (metis nth_mem)
  ultimately have "local_ok (maxClients (shared s)) pc"
    by (auto simp: admission_inv_def)
  with a show "clientsCount proxy1 = clientsCount (shared s)
          \<or> (clientsCount (shared s) \<noteq> 0
              \<and> Suc (unat (clientsCount proxy1)) = unat (clientsCount (shared s)))"
    by (intro dec_step_counter [of "shared s" pc proxy1 pc']) auto
qed

lemma example_run_dec:
  "step\<^sup>*\<^sup>* (system_example 0 []) (system_example 1 [(UDP, DecCAS 1), (TCP, Rejected)])"
proof -
  have 1: "step (system_example 1 [(UDP, Running), (TCP, Rejected)])
                (system_example 1 [(UDP, DecRead), (TCP, Rejected)])"
    using step.run [of 0 "system_example 1 [(UDP, Running), (TCP, Rejected)]" UDP Running
                       "proxy_example 1 1" DecRead]
    by (simp add: system_example_def proxy_example_def)
  have 2: "step (system_example 1 [(UDP, DecRead), (TCP, Rejected)])
                (system_example 1 [(UDP, DecTest 1), (TCP, Rejected)])"
    using step.run [of 0 "system_example 1 [(UDP, DecRead), (TCP, Rejected)]" UDP DecRead
                       "proxy_example 1 1" "DecTest 1"]
    by (simp add: system_example_def proxy_example_def)
  have 3: "step (system_example 1 [(UDP, DecTest 1), (TCP, Rejected)])
                (system_example 1 [(UDP, DecCAS 1), (TCP, Rejected)])"
    using step.run [of 0 "system_example 1 [(UDP, DecTest 1), (TCP, Rejected)]" UDP "DecTest 1"
                       "proxy_example 1 1" "DecCAS 1"]
    by (simp add: system_example_def proxy_example_def)
  from example_run 1
  have "step\<^sup>*\<^sup>* (system_example 0 []) (system_example 1 [(UDP, DecRead), (TCP, Rejected)])"
    by (rule rtranclp.rtrancl_into_rtrancl)
  from this 2
  have "step\<^sup>*\<^sup>* (system_example 0 []) (system_example 1 [(UDP, DecTest 1), (TCP, Rejected)])"
    by (rule rtranclp.rtrancl_into_rtrancl)
  from this 3 show ?thesis
    by (rule rtranclp.rtrancl_into_rtrancl)
qed

theorem clientsCountDec_decrement_or_noop_witness:
  "clientsCount (proxy_example 0 2) = 0
   \<and> clientsCountDec (proxy_example 0 2) = Some (proxy_example 0 2)
   \<and> clientsCount (proxy_example 2 2) \<noteq> 0
   \<and> clientsCountDec (proxy_example 2 2) = Some (proxy_example 1 2)
   \<and> initial (system_example 0 [])
   \<and> step\<^sup>*\<^sup>* (system_example 0 []) (system_example 1 [(UDP, DecCAS 1), (TCP, Rejected)])
   \<and> task_step (shared (system_example 1 [(UDP, DecCAS 1), (TCP, Rejected)])) (DecCAS 1)
       = Some (proxy_example 0 1, Done)
   \<and> Suc (unat (clientsCount (proxy_example 0 1)))
       = unat (clientsCount (shared (system_example 1 [(UDP, DecCAS 1), (TCP, Rejected)])))"
proof -
  note t = clientsCountDec_decrement_or_noop
    [of _ "system_example 0 []" "system_example 1 [(UDP, DecCAS 1), (TCP, Rejected)]"
        0 UDP "DecCAS 1" "proxy_example 0 1" Done]
  from t [of "proxy_example 0 2"]
  have a: "clientsCountDec (proxy_example 0 2) = Some (proxy_example 0 2)"
    by (auto simp: proxy_example_def)
  from t [of "proxy_example 2 2"]
  have b: "clientsCountDec (proxy_example 2 2) = Some (proxy_example 1 2)"
    by (auto simp: proxy_example_def)
  have i: "initial (system_example 0 [])"
    by (simp add: initial_def system_example_def proxy_example_def)
  have ts: "task_step (shared (system_example 1 [(UDP, DecCAS 1), (TCP, Rejected)])) (DecCAS 1)
       = Some (proxy_example 0 1, Done)"
    by (simp add: system_example_def proxy_example_def CompareAndSwapUint32_def)
  have h: "0 < length (tasks (system_example 1 [(UDP, DecCAS 1), (TCP, Rejected)]))
           \<and> tasks (system_example 1 [(UDP, DecCAS 1), (TCP, Rejected)]) ! 0 = (UDP, DecCAS 1)
           \<and> in_dec (DecCAS 1)"
    by (simp add: system_example_def)
  have ne: "clientsCount (proxy_example 0 1)
              \<noteq> clientsCount (shared (system_example 1 [(UDP, DecCAS 1), (TCP, Rejected)]))"
    by (simp add: system_example_def proxy_example_def)
  from t [of "proxy_example 0 2"] i example_run_dec ts h ne
  have c: "Suc (unat (clientsCount (proxy_example 0 1)))
       = unat (clientsCount (shared (system_example 1 [(UDP, DecCAS 1), (TCP, Rejected)])))"
    by blast
  from a b i example_run_dec ts c show ?thesis by (simp add: proxy_example_def)
qed

subsection \<open>C3: the key pair and the start state of the generator\<close>







subsection \<open>C10: the listener loops on a closed socket\<close>

lemma tcpListener_never_Some: "tcpListener Accept n spawned \<noteq> Some y"
proof
  assume "tcpListener Accept n spawned = Some y"
  then show False
    by (rule tcpListener.raw_induct [rotated 1, where P = "\<lambda>_ _ _ _. False"])
       (auto split: sum.splits)
qed

lemma tcpListener_never_returns: "tcpListener Accept n spawned = None"
  using tcpListener_never_Some [of Accept n spawned] by (cases "tcpListener Accept n spawned") auto

lemma udpListener_exits:
  "ReadFrom (n + k) = Inl err \<Longrightarrow> \<exists>tasks. udpListener K ReadFrom n spawned = Some tasks"
proof (induction k arbitrary: n spawned)
  case 0
  then show ?case by (subst udpListener.simps) simp
next
  case (Suc k)
  then have "ReadFrom (Suc n + k) = Inl err" by simp
  from Suc.IH [OF this] show ?case
    by (subst udpListener.simps) (auto split: sum.splits)
qed

text \<open>
  C10. On a socket that has been closed, so that every call returns an error, the
  accept loop of \<^verbatim>\<open>tcpListener\<close> never returns, while the read loop of
  \<^verbatim>\<open>udpListener\<close> returns at the first error.
\<close>

theorem tcpListener_spins_on_closed_socket:
  "tcpListener (closed_socket :: nat \<Rightarrow> error + nat) 0 [] = None
   \<and> udpListener limits_example closed_socket 0 [] = Some []"
proof
  show "tcpListener (closed_socket :: nat \<Rightarrow> error + nat) 0 [] = None"
    by (rule tcpListener_never_returns)
  show "udpListener limits_example closed_socket 0 [] = Some []"
    by (subst udpListener.simps) (simp add: closed_socket_def)
qed

subsection \<open>Events before the size policy\<close>

lemma exchangeDNSCrypt_quiet:
  "exchangeDNSCrypt K env si sp q = (evs, r) \<Longrightarrow> e \<in> set evs \<Longrightarrow> quiet e"
  by (auto simp: exchangeDNSCrypt_def quiet_def split: sum.splits prod.splits if_splits)

lemma exchangeDoH_quiet:
  "exchangeDoH env si q = (evs, r) \<Longrightarrow> e \<in> set evs \<Longrightarrow> quiet e"
  by (auto simp: exchangeDoH_def quiet_def split: sum.splits prod.splits option.splits if_splits)

lemma upstream_quiet:
  assumes "upstream K env si sp q st = (evs, r)" and "e \<in> set evs"
  shows "quiet e"
proof -
  obtain evs0 r0 where x:
    "(if Proto si = StampProtoTypeDNSCrypt then exchangeDNSCrypt K env si sp q
      else if Proto si = StampProtoTypeDoH then exchangeDoH env si q
      else ([Fatal ''Unsupported protocol''], None)) = (evs0, r0)"
    by (cases "if Proto si = StampProtoTypeDNSCrypt then exchangeDNSCrypt K env si sp q
      else if Proto si = StampProtoTypeDoH then exchangeDoH env si q
      else ([Fatal ''Unsupported protocol''], None)") auto
  then have q0: "\<And>e. e \<in> set evs0 \<Longrightarrow> quiet e"
    by (auto split: if_splits dest: exchangeDNSCrypt_quiet exchangeDoH_quiet simp: quiet_def)
  from assms(1) x have "evs = evs0 \<or> evs = evs0 @ [ApplyResponsePluginsCall]"
    by (auto simp: upstream_def split: option.splits)
  with assms(2) q0 show ?thesis by (auto simp: quiet_def)
qed

lemma quiet_ApplyQueryPluginsCall: "quiet ApplyQueryPluginsCall"
  by (simp add: quiet_def)

lemma obtainResponse_quiet:
  "obtainResponse K env si cp sp q = (evs, r) \<Longrightarrow> e \<in> set evs \<Longrightarrow> quiet e"
  by (auto simp: obtainResponse_def quiet_ApplyQueryPluginsCall
           split: prod.splits option.splits if_splits dest: upstream_quiet)

lemma quiet_filters:
  "(\<And>e. e \<in> set evs \<Longrightarrow> quiet e) \<Longrightarrow>
   filter is_client_write evs = [] \<and> filter is_estimator_update evs = []"
  by (auto simp: filter_empty_conv quiet_def)

lemma processIncomingQuery_Some:
  "MinDNSPacketSize K \<le> int (length query) \<Longrightarrow>
   processIncomingQuery K env (Some si) cp sp query =
     (case obtainResponse K env si cp sp query of
        (evs, None) \<Rightarrow> evs
      | (evs, Some response) \<Rightarrow> evs @ emitResponse K env si cp response)"
  by (simp add: processIncomingQuery_def)

lemma processIncomingQuery_dropped:
  "int (length query) < MinDNSPacketSize K \<or> serverInfo = None \<Longrightarrow>
   processIncomingQuery K env serverInfo cp sp query = []"
  by (auto simp: processIncomingQuery_def)

subsection \<open>C8: short queries and missing servers\<close>

text \<open>
  C8. A query shorter than \<^verbatim>\<open>MinDNSPacketSize\<close>, or a query for which no server
  is available, makes \<^verbatim>\<open>processIncomingQuery\<close> return at once: no event at all,
  so no reply, no plugin call and no server-health notice. The TCP task drops a
  length-prefixed packet shorter than \<^verbatim>\<open>MinDNSPacketSize\<close> before the pipeline,
  and an admitted task returns with the counter as it found it.
\<close>

theorem short_query_or_no_server_dropped:
  "(int (length query) < MinDNSPacketSize K \<or> serverInfo = None \<longrightarrow>
      processIncomingQuery K env serverInfo clientProto serverProto query = [])
   \<and> (int (length packet) < MinDNSPacketSize K \<longrightarrow>
        tcpClient K env getOne (Inr packet) = []
        \<and> (clientsCount proxy < maxClients proxy \<longrightarrow>
             tcpTask K env getOne (Inr packet) proxy = Some ([], proxy)))"
proof (intro conjI impI)
  assume "int (length query) < MinDNSPacketSize K \<or> serverInfo = None"
  then show "processIncomingQuery K env serverInfo clientProto serverProto query = []"
    by (rule processIncomingQuery_dropped)
next
  assume short: "int (length packet) < MinDNSPacketSize K"
  then show body: "tcpClient K env getOne (Inr packet) = []"
    by (simp add: tcpClient_def)
  assume "clientsCount proxy < maxClients proxy"
  then show "tcpTask K env getOne (Inr packet) proxy = Some ([], proxy)"
    using body
    by (simp add: tcpTask_def clientsCountInc_returns clientsCountDec_returns Let_def
          not_le inc_nonzero)
qed

theorem short_query_or_no_server_dropped_witness:
  "int (length (take 16 query_example)) < MinDNSPacketSize limits_example
   \<and> processIncomingQuery limits_example (env_example [])
        (Some (server_example StampProtoTypeDNSCrypt)) ''udp'' ''udp'' (take 16 query_example) = []
   \<and> processIncomingQuery limits_example (env_example []) None ''udp'' ''udp'' query_example = []
   \<and> tcpClient limits_example (env_example []) (Some (server_example StampProtoTypeDNSCrypt))
        (Inr (take 16 query_example)) = []
   \<and> clientsCount (proxy_example 0 1) < maxClients (proxy_example 0 1)
   \<and> tcpTask limits_example (env_example []) (Some (server_example StampProtoTypeDNSCrypt))
        (Inr (take 16 query_example)) (proxy_example 0 1) = Some ([], proxy_example 0 1)"
proof -
  have s: "int (length (take 16 query_example)) < MinDNSPacketSize limits_example"
    by (simp add: query_example_def limits_example_def)
  have a: "clientsCount (proxy_example 0 1) < maxClients (proxy_example 0 1)"
    by (simp add: proxy_example_def)
  from short_query_or_no_server_dropped
    [of "take 16 query_example" limits_example "Some (server_example StampProtoTypeDNSCrypt)"
        "env_example []" "''udp''" "''udp''" "take 16 query_example"
        "Some (server_example StampProtoTypeDNSCrypt)" "proxy_example 0 1"] s a
  have 1: "processIncomingQuery limits_example (env_example [])
        (Some (server_example StampProtoTypeDNSCrypt)) ''udp'' ''udp'' (take 16 query_example) = []"
    and 2: "tcpClient limits_example (env_example []) (Some (server_example StampProtoTypeDNSCrypt))
        (Inr (take 16 query_example)) = []"
    and 3: "tcpTask limits_example (env_example []) (Some (server_example StampProtoTypeDNSCrypt))
        (Inr (take 16 query_example)) (proxy_example 0 1) = Some ([], proxy_example 0 1)"
    by blast+
  from short_query_or_no_server_dropped
    [of query_example limits_example None "env_example []" "''udp''" "''udp''"]
  have 4: "processIncomingQuery limits_example (env_example []) None ''udp'' ''udp'' query_example = []"
    by blast
  from s a 1 2 3 4 show ?thesis by simp
qed

subsection \<open>C7: responses outside the size range\<close>

lemma obtainResponse_upstream:
  assumes "ApplyQueryPlugins env clientProto query = (query', pluginsState)"
    and "synthesize env pluginsState = Some []"
    and "upstream K env si serverProto query' pluginsState = (evs, r)"
  shows "obtainResponse K env si clientProto serverProto query = (ApplyQueryPluginsCall # evs, r)"
  using assms by (simp add: obtainResponse_def)

text \<open>
  C7. When the upstream exchange has given a response (after the response
  plugins) whose length is below \<^verbatim>\<open>MinDNSPacketSize\<close> or above
  \<^verbatim>\<open>MaxDNSPacketSize\<close>, \<^verbatim>\<open>processIncomingQuery\<close> ends with \<^verbatim>\<open>noticeFailure\<close> on the
  server and writes nothing to the client.
\<close>

theorem out_of_range_response_rejected:
  assumes "MinDNSPacketSize K \<le> int (length query)"
    and "ApplyQueryPlugins env clientProto query = (query', pluginsState)"
    and "synthesize env pluginsState = Some []"
    and "upstream K env si serverProto query' pluginsState = (evs, Some response)"
    and "int (length response) < MinDNSPacketSize K \<or> int (length response) > MaxDNSPacketSize K"
  shows "processIncomingQuery K env (Some si) clientProto serverProto query
           = ApplyQueryPluginsCall # evs @ [NoticeFailure si]
         \<and> filter is_client_write
             (processIncomingQuery K env (Some si) clientProto serverProto query) = []"
proof -
  have o: "obtainResponse K env si clientProto serverProto query
             = (ApplyQueryPluginsCall # evs, Some response)"
    using assms(2,3,4) by (rule obtainResponse_upstream)
  have e: "emitResponse K env si clientProto response = [NoticeFailure si]"
    using assms(5) by (auto simp: emitResponse_def)
  have t: "processIncomingQuery K env (Some si) clientProto serverProto query
           = ApplyQueryPluginsCall # evs @ [NoticeFailure si]"
    using assms(1) o e by (simp add: processIncomingQuery_Some)
  have "filter is_client_write (ApplyQueryPluginsCall # evs) = []"
    using quiet_filters [of "ApplyQueryPluginsCall # evs"] obtainResponse_quiet [OF o] by blast
  then have "filter is_client_write (ApplyQueryPluginsCall # evs @ [NoticeFailure si]) = []"
    by simp
  with t show ?thesis by simp
qed

lemma upstream_tcp_example:
  "upstream limits_example (env_example extra) (server_example StampProtoTypeDNSCrypt) ''tcp''
     query_example \<lparr>action = PluginsActionForward, synthResponse = None\<rparr>
   = ([EncryptCall, NoticeBegin (server_example StampProtoTypeDNSCrypt),
       ExchangeTCP (server_example StampProtoTypeDNSCrypt) query_example,
       ApplyResponsePluginsCall], Some (query_example @ extra))"
  by (simp add: upstream_def exchangeDNSCrypt_def exchangeWithTCPServer_def env_example_def
        server_example_def)

lemma upstream_udp_example:
  "upstream limits_example (env_example extra) (server_example StampProtoTypeDNSCrypt) ''udp''
     query_example \<lparr>action = PluginsActionForward, synthResponse = None\<rparr>
   = ([EncryptCall, NoticeBegin (server_example StampProtoTypeDNSCrypt),
       ExchangeUDP (server_example StampProtoTypeDNSCrypt) query_example,
       ApplyResponsePluginsCall], Some (take 40 (query_example @ extra)))"
  by (simp add: upstream_def exchangeDNSCrypt_def exchangeWithUDPServer_def env_example_def
        server_example_def limits_example_def)

lemma plugins_example:
  "ApplyQueryPlugins (env_example extra) clientProto query
     = (query, \<lparr>action = PluginsActionForward, synthResponse = None\<rparr>)"
  "synthesize (env_example extra) \<lparr>action = PluginsActionForward, synthResponse = None\<rparr> = Some []"
  by (simp_all add: env_example_def synthesize_def)

theorem out_of_range_response_rejected_witness:
  "int (length (query_example @ extra_example 24)) > MaxDNSPacketSize limits_example
   \<and> processIncomingQuery limits_example (env_example (extra_example 24))
       (Some (server_example StampProtoTypeDNSCrypt)) ''tcp'' ''tcp'' query_example
     = [ApplyQueryPluginsCall, EncryptCall, NoticeBegin (server_example StampProtoTypeDNSCrypt),
        ExchangeTCP (server_example StampProtoTypeDNSCrypt) query_example,
        ApplyResponsePluginsCall, NoticeFailure (server_example StampProtoTypeDNSCrypt)]"
proof -
  have l: "int (length (query_example @ extra_example 24)) > MaxDNSPacketSize limits_example"
    by (simp add: query_example_def extra_example_def limits_example_def)
  have m: "MinDNSPacketSize limits_example \<le> int (length query_example)"
    by (simp add: query_example_def limits_example_def)
  from out_of_range_response_rejected
    [OF m plugins_example(1) plugins_example(2) upstream_tcp_example, of "extra_example 24" "''tcp''"] l
  show ?thesis by simp
qed

subsection \<open>C4: UDP responses and truncation\<close>



lemma processIncomingQuery_write:
  assumes "ClientWriteTo packet \<in> set (processIncomingQuery K env serverInfo cp sp query)"
  shows "\<exists>si evs response. serverInfo = Some si
           \<and> obtainResponse K env si cp sp query = (evs, Some response)
           \<and> ClientWriteTo packet \<in> set (emitResponse K env si cp response)"
proof -
  from assms obtain si where si: "serverInfo = Some si"
    and len: "MinDNSPacketSize K \<le> int (length query)"
    by (cases serverInfo) (auto simp: processIncomingQuery_def split: if_splits)
  obtain evs r where o: "obtainResponse K env si cp sp query = (evs, r)"
    by (cases "obtainResponse K env si cp sp query") auto
  have nw: "ClientWriteTo packet \<notin> set evs"
    using obtainResponse_quiet [OF o, of "ClientWriteTo packet"] by (auto simp: quiet_def)
  from assms si len o nw obtain response where "r = Some response"
    and "ClientWriteTo packet \<in> set (emitResponse K env si cp response)"
    by (cases r) (auto simp: processIncomingQuery_Some)
  with si o show ?thesis by auto
qed


lemma obtainResponse_udp_example:
  "obtainResponse limits_example (env_example extra) (server_example StampProtoTypeDNSCrypt)
     ''udp'' ''udp'' query_example
   = ([ApplyQueryPluginsCall, EncryptCall, NoticeBegin (server_example StampProtoTypeDNSCrypt),
       ExchangeUDP (server_example StampProtoTypeDNSCrypt) query_example,
       ApplyResponsePluginsCall], Some (take 40 (query_example @ extra)))"
  using obtainResponse_upstream [OF plugins_example(1) plugins_example(2) upstream_udp_example]
  by simp

lemma truncation_example:
  "processIncomingQuery limits_example (env_example (extra_example 7))
     (Some (server_example StampProtoTypeDNSCrypt)) ''udp'' ''udp'' query_example
   = [ApplyQueryPluginsCall, EncryptCall, NoticeBegin (server_example StampProtoTypeDNSCrypt),
      ExchangeUDP (server_example StampProtoTypeDNSCrypt) query_example,
      ApplyResponsePluginsCall,
      ClientWriteTo [0x12, 0x34, 3, 0, 0, 0, 0, 0, 0, 0, 0, 0],
      BlindAdjust,
      NoticeSuccess (server_example StampProtoTypeDNSCrypt)]"
proof -
  have m: "MinDNSPacketSize limits_example \<le> int (length query_example)"
    by (simp add: query_example_def limits_example_def)
  have e: "emitResponse limits_example (env_example (extra_example 7))
             (server_example StampProtoTypeDNSCrypt) ''udp''
             (take 40 (query_example @ extra_example 7))
           = [ClientWriteTo [0x12, 0x34, 3, 0, 0, 0, 0, 0, 0, 0, 0, 0], BlindAdjust,
              NoticeSuccess (server_example StampProtoTypeDNSCrypt)]"
    by (simp add: emitResponse_def TruncatedResponse_def HasTCFlag_def limits_example_def
          query_example_def extra_example_def)
  show ?thesis
    unfolding processIncomingQuery_Some [OF m] obtainResponse_udp_example prod.case option.case e
    by simp
qed


subsection \<open>C9: the estimator update\<close>

lemma emitResponse_udp_estimator:
  assumes "ClientWriteTo packet \<in> set (emitResponse K env si ''udp'' response)"
  shows "filter is_estimator_update (emitResponse K env si ''udp'' response)
           = [if HasTCFlag packet then BlindAdjust
              else Adjust (ResponseOverhead K + int (length packet))]"
  using assms by (auto simp: emitResponse_def split: if_splits sum.splits)

lemma emitResponse_other_estimator:
  "clientProto \<noteq> ''udp'' \<Longrightarrow>
   filter is_estimator_update (emitResponse K env si clientProto response) = []"
  by (auto simp: emitResponse_def split: sum.splits)

lemma processIncomingQuery_cases:
  obtains (dropped) "processIncomingQuery K env serverInfo cp sp query = []"
  | (returned) si evs where "serverInfo = Some si"
      "obtainResponse K env si cp sp query = (evs, None)"
      "processIncomingQuery K env serverInfo cp sp query = evs"
  | (emitted) si evs response where "serverInfo = Some si"
      "obtainResponse K env si cp sp query = (evs, Some response)"
      "processIncomingQuery K env serverInfo cp sp query
         = evs @ emitResponse K env si cp response"
proof (cases "int (length query) < MinDNSPacketSize K \<or> serverInfo = None")
  case True
  then have "processIncomingQuery K env serverInfo cp sp query = []"
    by (rule processIncomingQuery_dropped)
  then show ?thesis by (rule dropped)
next
  case False
  then obtain si where si: "serverInfo = Some si"
    and len: "MinDNSPacketSize K \<le> int (length query)" by auto
  obtain evs r where o: "obtainResponse K env si cp sp query = (evs, r)"
    by (cases "obtainResponse K env si cp sp query") auto
  show ?thesis
  proof (cases r)
    case None
    with si o len show ?thesis by (intro returned [of si evs]) (simp_all add: processIncomingQuery_Some)
  next
    case (Some response)
    with si o len show ?thesis
      by (intro emitted [of si evs response]) (simp_all add: processIncomingQuery_Some)
  qed
qed

text \<open>
  C9. When the client protocol is UDP and a packet is written to the client, the
  estimator is updated exactly once: \<^verbatim>\<open>blindAdjust\<close> if the packet written
  carries the TC flag, otherwise \<^verbatim>\<open>adjust\<close> with \<^verbatim>\<open>ResponseOverhead\<close> plus the
  length of that packet. When the client protocol is not UDP the estimator is
  not updated at all, so the update happens exactly when the client protocol is
  UDP.
\<close>

theorem estimator_update_on_udp_only:
  "(clientProto = ''udp''
      \<and> ClientWriteTo packet \<in> set (processIncomingQuery K env serverInfo clientProto serverProto query)
    \<longrightarrow> filter is_estimator_update
          (processIncomingQuery K env serverInfo clientProto serverProto query)
        = [if HasTCFlag packet then BlindAdjust
           else Adjust (ResponseOverhead K + int (length packet))])
   \<and> (clientProto \<noteq> ''udp''
    \<longrightarrow> filter is_estimator_update
          (processIncomingQuery K env serverInfo clientProto serverProto query) = [])"
proof (intro conjI impI)
  assume a: "clientProto = ''udp''
      \<and> ClientWriteTo packet \<in> set (processIncomingQuery K env serverInfo clientProto serverProto query)"
  then have cp: "clientProto = ''udp''"
    and w0: "ClientWriteTo packet
               \<in> set (processIncomingQuery K env serverInfo clientProto serverProto query)"
    by blast+
  from w0 have w: "ClientWriteTo packet
                  \<in> set (processIncomingQuery K env serverInfo ''udp'' serverProto query)"
    unfolding cp .
  from processIncomingQuery_write [OF w] obtain si evs response
    where si: "serverInfo = Some si"
      and o: "obtainResponse K env si ''udp'' serverProto query = (evs, Some response)"
      and e: "ClientWriteTo packet \<in> set (emitResponse K env si ''udp'' response)"
    by blast
  from w have len: "MinDNSPacketSize K \<le> int (length query)"
    by (auto simp: processIncomingQuery_def split: if_splits)
  have q: "filter is_estimator_update evs = []"
    using quiet_filters [of evs] obtainResponse_quiet [OF o] by blast
  have "processIncomingQuery K env serverInfo ''udp'' serverProto query
          = evs @ emitResponse K env si ''udp'' response"
    using si o len by (simp add: processIncomingQuery_Some)
  with q emitResponse_udp_estimator [OF e] cp
  show "filter is_estimator_update
          (processIncomingQuery K env serverInfo clientProto serverProto query)
        = [if HasTCFlag packet then BlindAdjust
           else Adjust (ResponseOverhead K + int (length packet))]"
    by simp
next
  assume n: "clientProto \<noteq> ''udp''"
  show "filter is_estimator_update
          (processIncomingQuery K env serverInfo clientProto serverProto query) = []"
  proof (cases rule: processIncomingQuery_cases [of K env serverInfo clientProto serverProto query])
    case dropped
    then show ?thesis by simp
  next
    case (returned si evs)
    with quiet_filters [of evs] obtainResponse_quiet [OF returned(2)] show ?thesis by auto
  next
    case (emitted si evs response)
    with quiet_filters [of evs] obtainResponse_quiet [OF emitted(2)]
      emitResponse_other_estimator [OF n, of K env si response]
    show ?thesis by auto
  qed
qed

lemma obtainResponse_tcp_example:
  "obtainResponse limits_example (env_example extra) (server_example StampProtoTypeDNSCrypt)
     ''tcp'' ''tcp'' query_example
   = ([ApplyQueryPluginsCall, EncryptCall, NoticeBegin (server_example StampProtoTypeDNSCrypt),
       ExchangeTCP (server_example StampProtoTypeDNSCrypt) query_example,
       ApplyResponsePluginsCall], Some (query_example @ extra))"
  using obtainResponse_upstream [OF plugins_example(1) plugins_example(2) upstream_tcp_example]
  by simp

lemma tcp_example:
  "processIncomingQuery limits_example (env_example [])
     (Some (server_example StampProtoTypeDNSCrypt)) ''tcp'' ''tcp'' query_example
   = [ApplyQueryPluginsCall, EncryptCall, NoticeBegin (server_example StampProtoTypeDNSCrypt),
      ExchangeTCP (server_example StampProtoTypeDNSCrypt) query_example,
      ApplyResponsePluginsCall,
      ClientWrite (0 # 17 # query_example),
      NoticeSuccess (server_example StampProtoTypeDNSCrypt)]"
proof -
  have m: "MinDNSPacketSize limits_example \<le> int (length query_example)"
    by (simp add: query_example_def limits_example_def)
  have e: "emitResponse limits_example (env_example [])
             (server_example StampProtoTypeDNSCrypt) ''tcp'' (query_example @ [])
           = [ClientWrite (0 # 17 # query_example),
              NoticeSuccess (server_example StampProtoTypeDNSCrypt)]"
    by (simp add: emitResponse_def limits_example_def env_example_def query_example_def)
  show ?thesis
    unfolding processIncomingQuery_Some [OF m] obtainResponse_tcp_example prod.case option.case e
    by simp
qed

theorem estimator_update_on_udp_only_witness:
  "ClientWriteTo [0x12, 0x34, 3, 0, 0, 0, 0, 0, 0, 0, 0, 0]
       \<in> set (processIncomingQuery limits_example (env_example (extra_example 7))
                (Some (server_example StampProtoTypeDNSCrypt)) ''udp'' ''udp'' query_example)
   \<and> filter is_estimator_update
       (processIncomingQuery limits_example (env_example (extra_example 7))
          (Some (server_example StampProtoTypeDNSCrypt)) ''udp'' ''udp'' query_example)
     = [BlindAdjust]
   \<and> ''tcp'' \<noteq> ''udp''
   \<and> filter is_estimator_update
       (processIncomingQuery limits_example (env_example [])
          (Some (server_example StampProtoTypeDNSCrypt)) ''tcp'' ''tcp'' query_example) = []"
proof -
  have w: "ClientWriteTo [0x12, 0x34, 3, 0, 0, 0, 0, 0, 0, 0, 0, 0]
       \<in> set (processIncomingQuery limits_example (env_example (extra_example 7))
                (Some (server_example StampProtoTypeDNSCrypt)) ''udp'' ''udp'' query_example)"
    by (simp add: truncation_example)
  have tc: "HasTCFlag [0x12, 0x34, 3, 0, 0, 0, 0, 0, 0, 0, 0, 0]"
    by (simp add: HasTCFlag_def)
  from estimator_update_on_udp_only
    [of "''udp''" "[0x12, 0x34, 3, 0, 0, 0, 0, 0, 0, 0, 0, 0]" limits_example
        "env_example (extra_example 7)" "Some (server_example StampProtoTypeDNSCrypt)"
        "''udp''" query_example] w tc
  have 1: "filter is_estimator_update
       (processIncomingQuery limits_example (env_example (extra_example 7))
          (Some (server_example StampProtoTypeDNSCrypt)) ''udp'' ''udp'' query_example)
     = [BlindAdjust]"
    by simp
  from estimator_update_on_udp_only
    [of "''tcp''" "[]" limits_example "env_example []"
        "Some (server_example StampProtoTypeDNSCrypt)" "''tcp''" query_example]
  have 2: "filter is_estimator_update
       (processIncomingQuery limits_example (env_example [])
          (Some (server_example StampProtoTypeDNSCrypt)) ''tcp'' ''tcp'' query_example) = []"
    by simp
  from w 1 2 show ?thesis by simp
qed

subsection \<open>C6: synthesized responses\<close>

lemma emitResponse_no_upstream:
  "filter is_upstream_contact (emitResponse K env si cp response) = []"
  by (auto simp: emitResponse_def split: sum.splits)

text \<open>
  C6. When the query plugins end with an action other than Forward and a
  synthesized response, \<^verbatim>\<open>processIncomingQuery\<close> makes no upstream contact: no call
  of \<^verbatim>\<open>Encrypt\<close>, no \<^verbatim>\<open>noticeBegin\<close>, no UDP, TCP or DoH exchange, no response
  plugins; and unless the action is Drop, what follows the query plugins is the
  size policy and emission applied to the packed synthesized response. The
  library's packer is assumed never to give an empty packet.
\<close>

theorem synthesized_response_skips_upstream:
  assumes "MinDNSPacketSize K \<le> int (length query)"
    and "ApplyQueryPlugins env clientProto query = (query', pluginsState)"
    and "action pluginsState \<noteq> PluginsActionForward"
    and "synthResponse pluginsState = Some msg"
    and "PackBuffer env msg \<noteq> Inr []"
  shows "filter is_upstream_contact
           (processIncomingQuery K env (Some si) clientProto serverProto query) = []
         \<and> (\<forall>packed. PackBuffer env msg = Inr packed
                \<and> action pluginsState \<noteq> PluginsActionDrop
              \<longrightarrow> processIncomingQuery K env (Some si) clientProto serverProto query
                    = ApplyQueryPluginsCall # emitResponse K env si clientProto packed)"
proof (cases "PackBuffer env msg")
  case (Inl err)
  with assms(3,4) have "synthesize env pluginsState = None"
    by (simp add: synthesize_def)
  with assms(2) have "obtainResponse K env si clientProto serverProto query
                        = ([ApplyQueryPluginsCall], None)"
    by (simp add: obtainResponse_def)
  with assms(1) Inl show ?thesis by (simp add: processIncomingQuery_Some)
next
  case (Inr packed)
  with assms(5) have ne: "packed \<noteq> []" by auto
  show ?thesis
  proof (cases "action pluginsState = PluginsActionDrop")
    case True
    with assms(3,4) Inr have "synthesize env pluginsState = None"
      by (simp add: synthesize_def)
    with assms(2) have "obtainResponse K env si clientProto serverProto query
                          = ([ApplyQueryPluginsCall], None)"
      by (simp add: obtainResponse_def)
    with assms(1) True show ?thesis by (simp add: processIncomingQuery_Some)
  next
    case False
    with assms(3,4) Inr have "synthesize env pluginsState = Some packed"
      by (simp add: synthesize_def)
    with assms(2) ne have "obtainResponse K env si clientProto serverProto query
                          = ([ApplyQueryPluginsCall], Some packed)"
      by (simp add: obtainResponse_def)
    with assms(1) Inr show ?thesis
      by (simp add: processIncomingQuery_Some emitResponse_no_upstream)
  qed
qed

lemma synth_example:
  "ApplyQueryPlugins env_synth_example ''udp'' query_example
     = (query_example, \<lparr>action = PluginsActionSynth, synthResponse = Some query_example\<rparr>)"
  "PackBuffer env_synth_example query_example = Inr query_example"
  by (simp_all add: env_synth_example_def env_example_def)

theorem synthesized_response_skips_upstream_witness:
  "MinDNSPacketSize limits_example \<le> int (length query_example)
   \<and> ApplyQueryPlugins env_synth_example ''udp'' query_example
       = (query_example, \<lparr>action = PluginsActionSynth, synthResponse = Some query_example\<rparr>)
   \<and> PackBuffer env_synth_example query_example = Inr query_example
   \<and> processIncomingQuery limits_example env_synth_example
       (Some (server_example StampProtoTypeDNSCrypt)) ''udp'' ''udp'' query_example
     = [ApplyQueryPluginsCall, ClientWriteTo query_example,
        Adjust (ResponseOverhead limits_example + 17),
        NoticeSuccess (server_example StampProtoTypeDNSCrypt)]"
proof -
  have m: "MinDNSPacketSize limits_example \<le> int (length query_example)"
    by (simp add: query_example_def limits_example_def)
  have "query_example \<noteq> []" by (simp add: query_example_def)
  then have ne: "PackBuffer env_synth_example query_example \<noteq> Inr []"
    by (simp add: synth_example(2))
  have e: "emitResponse limits_example env_synth_example
             (server_example StampProtoTypeDNSCrypt) ''udp'' query_example
           = [ClientWriteTo query_example, Adjust (ResponseOverhead limits_example + 17),
              NoticeSuccess (server_example StampProtoTypeDNSCrypt)]"
    by (simp add: emitResponse_def limits_example_def HasTCFlag_def query_example_def)
  from synthesized_response_skips_upstream
    [OF m synth_example(1) _ _ ne, of "server_example StampProtoTypeDNSCrypt" "''udp''"]
    synth_example(2) e
  have "processIncomingQuery limits_example env_synth_example
       (Some (server_example StampProtoTypeDNSCrypt)) ''udp'' ''udp'' query_example
     = [ApplyQueryPluginsCall, ClientWriteTo query_example,
        Adjust (ResponseOverhead limits_example + 17),
        NoticeSuccess (server_example StampProtoTypeDNSCrypt)]"
    by simp
  with m synth_example show ?thesis by simp
qed

subsection \<open>C2: failed upstream exchanges\<close>

text \<open>
  C2 as stated fails when \<^verbatim>\<open>Encrypt\<close> fails: the function returns without calling
  \<^verbatim>\<open>noticeFailure\<close>.
\<close>

theorem encrypt_failure_without_notice:
  "Encrypt env_encrypt_fails (server_example StampProtoTypeDNSCrypt) query_example ''udp''
     = Inl (Error ''encrypt'')
   \<and> processIncomingQuery limits_example env_encrypt_fails
       (Some (server_example StampProtoTypeDNSCrypt)) ''udp'' ''udp'' query_example
     = [ApplyQueryPluginsCall, EncryptCall]
   \<and> NoticeFailure (server_example StampProtoTypeDNSCrypt)
       \<notin> set (processIncomingQuery limits_example env_encrypt_fails
                (Some (server_example StampProtoTypeDNSCrypt)) ''udp'' ''udp'' query_example)"
proof -
  have m: "MinDNSPacketSize limits_example \<le> int (length query_example)"
    by (simp add: query_example_def limits_example_def)
  have o: "obtainResponse limits_example env_encrypt_fails
             (server_example StampProtoTypeDNSCrypt) ''udp'' ''udp'' query_example
           = ([ApplyQueryPluginsCall, EncryptCall], None)"
    by (simp add: obtainResponse_def synthesize_def upstream_def exchangeDNSCrypt_def
          env_encrypt_fails_def env_example_def server_example_def)
  have "processIncomingQuery limits_example env_encrypt_fails
       (Some (server_example StampProtoTypeDNSCrypt)) ''udp'' ''udp'' query_example
     = [ApplyQueryPluginsCall, EncryptCall]"
    unfolding processIncomingQuery_Some [OF m] o by simp
  then show ?thesis by (simp add: env_encrypt_fails_def env_example_def)
qed

lemma upstream_DNSCrypt:
  "Proto si = StampProtoTypeDNSCrypt \<Longrightarrow>
   upstream K env si sp q st =
     (case exchangeDNSCrypt K env si sp q of
        (evs, None) \<Rightarrow> (evs, None)
      | (evs, Some response) \<Rightarrow>
          (evs @ [ApplyResponsePluginsCall], Some (ApplyResponsePlugins env st response)))"
  by (simp add: upstream_def)

lemma upstream_DoH:
  "Proto si = StampProtoTypeDoH \<Longrightarrow>
   upstream K env si sp q st =
     (case exchangeDoH env si q of
        (evs, None) \<Rightarrow> (evs, None)
      | (evs, Some response) \<Rightarrow>
          (evs @ [ApplyResponsePluginsCall], Some (ApplyResponsePlugins env st response)))"
  by (simp add: upstream_def)

lemma processIncomingQuery_upstream_returned:
  assumes "MinDNSPacketSize K \<le> int (length query)"
    and "ApplyQueryPlugins env clientProto query = (query', pluginsState)"
    and "synthesize env pluginsState = Some []"
    and "upstream K env si serverProto query' pluginsState = (evs, None)"
  shows "processIncomingQuery K env (Some si) clientProto serverProto query
           = ApplyQueryPluginsCall # evs"
  using assms(1) obtainResponse_upstream [OF assms(2,3,4)]
  by (simp add: processIncomingQuery_Some)

text \<open>
  C2, as amended. For a query sent upstream: if \<^verbatim>\<open>Encrypt\<close> fails,
  \<^verbatim>\<open>processIncomingQuery\<close> returns with no server-health notice and nothing
  written to the client; if the DNSCrypt exchange over UDP or TCP fails (dial,
  read or decrypt), it calls \<^verbatim>\<open>noticeFailure\<close> on the server and returns with
  nothing written; if the DoH request fails (error, no response, a status outside
  200 to 299, or an unreadable body), it returns with nothing written.
\<close>

theorem failed_exchange_is_silent:
  assumes "MinDNSPacketSize K \<le> int (length query)"
    and "ApplyQueryPlugins env clientProto query = (query', pluginsState)"
    and "synthesize env pluginsState = Some []"
  shows "(Proto si = StampProtoTypeDNSCrypt \<and> isl (Encrypt env si query' serverProto)
            \<longrightarrow> processIncomingQuery K env (Some si) clientProto serverProto query
                  = [ApplyQueryPluginsCall, EncryptCall])
       \<and> (Proto si = StampProtoTypeDNSCrypt
            \<and> Encrypt env si query' serverProto = Inr (encryptedQuery, clientNonce)
            \<and> serverProto = ''udp''
            \<and> isl (exchangeWithUDPServer K env si encryptedQuery clientNonce)
            \<longrightarrow> processIncomingQuery K env (Some si) clientProto serverProto query
                  = [ApplyQueryPluginsCall, EncryptCall, NoticeBegin si,
                     ExchangeUDP si encryptedQuery, NoticeFailure si])
       \<and> (Proto si = StampProtoTypeDNSCrypt
            \<and> Encrypt env si query' serverProto = Inr (encryptedQuery, clientNonce)
            \<and> serverProto \<noteq> ''udp''
            \<and> isl (exchangeWithTCPServer env si encryptedQuery clientNonce)
            \<longrightarrow> processIncomingQuery K env (Some si) clientProto serverProto query
                  = [ApplyQueryPluginsCall, EncryptCall, NoticeBegin si,
                     ExchangeTCP si encryptedQuery, NoticeFailure si])
       \<and> (Proto si = StampProtoTypeDoH
            \<and> (snd (HTTPDo env si query') \<noteq> None
                \<or> (case fst (HTTPDo env si query') of
                      None \<Rightarrow> True
                    | Some r \<Rightarrow> StatusCode r < 200 \<or> StatusCode r > 299 \<or> isl (Body r)))
            \<longrightarrow> filter is_client_write
                  (processIncomingQuery K env (Some si) clientProto serverProto query) = [])"
proof (intro conjI impI)
  assume "Proto si = StampProtoTypeDNSCrypt \<and> isl (Encrypt env si query' serverProto)"
  then have "upstream K env si serverProto query' pluginsState = ([EncryptCall], None)"
    by (auto simp: upstream_DNSCrypt exchangeDNSCrypt_def split: sum.splits)
  from processIncomingQuery_upstream_returned [OF assms this]
  show "processIncomingQuery K env (Some si) clientProto serverProto query
          = [ApplyQueryPluginsCall, EncryptCall]" .
next
  assume "Proto si = StampProtoTypeDNSCrypt
            \<and> Encrypt env si query' serverProto = Inr (encryptedQuery, clientNonce)
            \<and> serverProto = ''udp''
            \<and> isl (exchangeWithUDPServer K env si encryptedQuery clientNonce)"
  then have "upstream K env si serverProto query' pluginsState
               = ([EncryptCall, NoticeBegin si, ExchangeUDP si encryptedQuery,
                   NoticeFailure si], None)"
    by (auto simp: upstream_DNSCrypt exchangeDNSCrypt_def split: sum.splits)
  from processIncomingQuery_upstream_returned [OF assms this]
  show "processIncomingQuery K env (Some si) clientProto serverProto query
          = [ApplyQueryPluginsCall, EncryptCall, NoticeBegin si,
             ExchangeUDP si encryptedQuery, NoticeFailure si]" .
next
  assume "Proto si = StampProtoTypeDNSCrypt
            \<and> Encrypt env si query' serverProto = Inr (encryptedQuery, clientNonce)
            \<and> serverProto \<noteq> ''udp''
            \<and> isl (exchangeWithTCPServer env si encryptedQuery clientNonce)"
  then have "upstream K env si serverProto query' pluginsState
               = ([EncryptCall, NoticeBegin si, ExchangeTCP si encryptedQuery,
                   NoticeFailure si], None)"
    by (auto simp: upstream_DNSCrypt exchangeDNSCrypt_def split: sum.splits)
  from processIncomingQuery_upstream_returned [OF assms this]
  show "processIncomingQuery K env (Some si) clientProto serverProto query
          = [ApplyQueryPluginsCall, EncryptCall, NoticeBegin si,
             ExchangeTCP si encryptedQuery, NoticeFailure si]" .
next
  assume a: "Proto si = StampProtoTypeDoH
            \<and> (snd (HTTPDo env si query') \<noteq> None
                \<or> (case fst (HTTPDo env si query') of
                      None \<Rightarrow> True
                    | Some r \<Rightarrow> StatusCode r < 200 \<or> StatusCode r > 299 \<or> isl (Body r)))"
  then have "exchangeDoH env si query' = ([DoHPost si query'], None)"
    by (cases "HTTPDo env si query'")
       (auto simp: exchangeDoH_def split: option.splits sum.splits)
  with a have "upstream K env si serverProto query' pluginsState = ([DoHPost si query'], None)"
    by (simp add: upstream_DoH)
  from processIncomingQuery_upstream_returned [OF assms this]
  show "filter is_client_write
          (processIncomingQuery K env (Some si) clientProto serverProto query) = []"
    by simp
qed

lemma forward_example:
  "ApplyQueryPlugins env_encrypt_fails ''udp'' query_example
     = (query_example, \<lparr>action = PluginsActionForward, synthResponse = None\<rparr>)"
  "synthesize env_encrypt_fails \<lparr>action = PluginsActionForward, synthResponse = None\<rparr> = Some []"
  "ApplyQueryPlugins env_dial_fails ''udp'' query_example
     = (query_example, \<lparr>action = PluginsActionForward, synthResponse = None\<rparr>)"
  "synthesize env_dial_fails \<lparr>action = PluginsActionForward, synthResponse = None\<rparr> = Some []"
  "ApplyQueryPlugins env_doh_500 ''udp'' query_example
     = (query_example, \<lparr>action = PluginsActionForward, synthResponse = None\<rparr>)"
  "synthesize env_doh_500 \<lparr>action = PluginsActionForward, synthResponse = None\<rparr> = Some []"
  by (simp_all add: env_encrypt_fails_def env_dial_fails_def env_doh_500_def env_example_def
        synthesize_def)

theorem failed_exchange_is_silent_witness:
  "MinDNSPacketSize limits_example \<le> int (length query_example)
   \<and> isl (Encrypt env_encrypt_fails (server_example StampProtoTypeDNSCrypt) query_example ''udp'')
   \<and> processIncomingQuery limits_example env_encrypt_fails
       (Some (server_example StampProtoTypeDNSCrypt)) ''udp'' ''udp'' query_example
     = [ApplyQueryPluginsCall, EncryptCall]
   \<and> Encrypt env_dial_fails (server_example StampProtoTypeDNSCrypt) query_example ''udp''
       = Inr (query_example, [7])
   \<and> isl (exchangeWithUDPServer limits_example env_dial_fails
            (server_example StampProtoTypeDNSCrypt) query_example [7])
   \<and> processIncomingQuery limits_example env_dial_fails
       (Some (server_example StampProtoTypeDNSCrypt)) ''udp'' ''udp'' query_example
     = [ApplyQueryPluginsCall, EncryptCall, NoticeBegin (server_example StampProtoTypeDNSCrypt),
        ExchangeUDP (server_example StampProtoTypeDNSCrypt) query_example,
        NoticeFailure (server_example StampProtoTypeDNSCrypt)]
   \<and> fst (HTTPDo env_doh_500 (server_example StampProtoTypeDoH) query_example)
       = Some \<lparr>StatusCode = 500, Body = Inr []\<rparr>
   \<and> filter is_client_write
       (processIncomingQuery limits_example env_doh_500
          (Some (server_example StampProtoTypeDoH)) ''udp'' ''udp'' query_example) = []"
proof -
  have m: "MinDNSPacketSize limits_example \<le> int (length query_example)"
    by (simp add: query_example_def limits_example_def)
  have e1: "isl (Encrypt env_encrypt_fails (server_example StampProtoTypeDNSCrypt)
                   query_example ''udp'')"
    by (simp add: env_encrypt_fails_def env_example_def)
  have p1: "Proto (server_example StampProtoTypeDNSCrypt) = StampProtoTypeDNSCrypt"
    by (simp add: server_example_def)
  from failed_exchange_is_silent
    [OF m forward_example(1) forward_example(2),
      of "server_example StampProtoTypeDNSCrypt" "''udp''" "[]" "[]"] e1 p1
  have 1: "processIncomingQuery limits_example env_encrypt_fails
       (Some (server_example StampProtoTypeDNSCrypt)) ''udp'' ''udp'' query_example
     = [ApplyQueryPluginsCall, EncryptCall]"
    by blast
  have e2: "Encrypt env_dial_fails (server_example StampProtoTypeDNSCrypt) query_example ''udp''
       = Inr (query_example, [7])"
    by (simp add: env_dial_fails_def env_example_def)
  have x2: "isl (exchangeWithUDPServer limits_example env_dial_fails
            (server_example StampProtoTypeDNSCrypt) query_example [7])"
    by (simp add: exchangeWithUDPServer_def env_dial_fails_def env_example_def)
  from failed_exchange_is_silent
    [OF m forward_example(3) forward_example(4),
      of "server_example StampProtoTypeDNSCrypt" "''udp''" query_example "[7]"] e2 x2 p1
  have 2: "processIncomingQuery limits_example env_dial_fails
       (Some (server_example StampProtoTypeDNSCrypt)) ''udp'' ''udp'' query_example
     = [ApplyQueryPluginsCall, EncryptCall, NoticeBegin (server_example StampProtoTypeDNSCrypt),
        ExchangeUDP (server_example StampProtoTypeDNSCrypt) query_example,
        NoticeFailure (server_example StampProtoTypeDNSCrypt)]"
    by blast
  have h3: "fst (HTTPDo env_doh_500 (server_example StampProtoTypeDoH) query_example)
       = Some \<lparr>StatusCode = 500, Body = Inr []\<rparr>"
    by (simp add: env_doh_500_def env_example_def)
  have p3: "Proto (server_example StampProtoTypeDoH) = StampProtoTypeDoH"
    by (simp add: server_example_def)
  have c3: "snd (HTTPDo env_doh_500 (server_example StampProtoTypeDoH) query_example) \<noteq> None
            \<or> (case fst (HTTPDo env_doh_500 (server_example StampProtoTypeDoH) query_example) of
                  None \<Rightarrow> True
                | Some r \<Rightarrow> StatusCode r < 200 \<or> StatusCode r > 299 \<or> isl (Body r))"
    by (simp add: h3)
  from failed_exchange_is_silent
    [OF m forward_example(5) forward_example(6),
      of "server_example StampProtoTypeDoH" "''udp''" "[]" "[]"] p3 c3
  have 3: "filter is_client_write
       (processIncomingQuery limits_example env_doh_500
          (Some (server_example StampProtoTypeDoH)) ''udp'' ''udp'' query_example) = []"
    by blast
  from m e1 1 e2 x2 2 h3 3 show ?thesis by blast
qed

end
